theory Spec2Isabelle
  imports Complex_Main
begin

section \<open>Values shared by the modules\<close>

text \<open>
  JavaScript numbers are modelled as real numbers (exact arithmetic, no rounding and no
  NaN); \<^verbatim>\<open>Date.now()\<close> readings and counters are integers. A thrown exception is a value
  of \<open>js_error\<close>, and a function that may throw returns a sum with the error on the left.
\<close>

datatype js_error = Error string | TypeError string

text \<open>\<^verbatim>\<open>error.message\<close>.\<close>

fun message :: "js_error \<Rightarrow> string" where
  "message (Error m) = m"
| "message (TypeError m) = m"

text \<open>
  Reading a property of \<^verbatim>\<open>undefined\<close>; the message is the engine's wording, abbreviated.
\<close>

definition undefinedProperty :: js_error where
  "undefinedProperty = TypeError ''Cannot read properties of undefined''"

subsection \<open>Numbers in strings\<close>

text \<open>
  Decimal rendering of an integer, as a template literal or \<^verbatim>\<open>toString()\<close> prints it.
\<close>

fun show_nat :: "nat \<Rightarrow> string" where
  "show_nat n =
     (if n < 10 then [''0123456789'' ! n]
      else show_nat (n div 10) @ [''0123456789'' ! (n mod 10)])"

declare show_nat.simps [simp del]

definition show_int :: "int \<Rightarrow> string" where
  "show_int i = (if i < 0 then CHR ''-'' # show_nat (nat (- i)) else show_nat (nat i))"

text \<open>
  \<^verbatim>\<open>Number.parseInt\<close> on a string without leading white space or radix prefix: an
  optional sign and the longest prefix of decimal digits; \<open>None\<close> stands for NaN.
\<close>

definition is_digit :: "char \<Rightarrow> bool" where
  "is_digit c \<longleftrightarrow> c \<in> set ''0123456789''"

definition digit_value :: "char \<Rightarrow> nat" where
  "digit_value c = of_char c - 48"

definition parse_digits :: "string \<Rightarrow> nat option" where
  "parse_digits s =
     (let ds = takeWhile is_digit s
      in if ds = [] then None else Some (foldl (\<lambda>a c. 10 * a + digit_value c) 0 ds))"

definition parseInt :: "string \<Rightarrow> int option" where
  "parseInt s =
     (case s of
        [] \<Rightarrow> None
      | c # cs \<Rightarrow>
          if c = CHR ''-'' then map_option (\<lambda>n. - int n) (parse_digits cs)
          else if c = CHR ''+'' then map_option int (parse_digits cs)
          else map_option int (parse_digits s))"

text \<open>\<^verbatim>\<open>Array.prototype.join\<close> on an array of strings.\<close>

fun join :: "string \<Rightarrow> string list \<Rightarrow> string" where
  "join sep [] = []"
| "join sep [x] = x"
| "join sep (x # y # ys) = x @ sep @ join sep (y # ys)"

subsection \<open>Detections as produced by the detector\<close>

record face_box =
  width :: real
  height :: real

record face_detection =
  box :: "face_box option"
  score :: real

record face_expressions =
  neutral :: "real option"
  happy :: "real option"

text \<open>
  One element of the array returned by the detector. \<open>detection\<close> is the inner
  \<^verbatim>\<open>detection.detection\<close> object; it and its \<open>box\<close> are optional because reading a
  property of \<^verbatim>\<open>undefined\<close> throws a TypeError. \<open>landmarks\<close> is the truthiness of
  \<^verbatim>\<open>detection.landmarks\<close>; \<open>expressions\<close> is \<open>None\<close> when the property is missing.
\<close>

record detection =
  detection :: "face_detection option"
  landmarks :: bool
  expressions :: "face_expressions option"
  descriptor :: "real list"

text \<open>\<^verbatim>\<open>v || 0\<close> on a numeric property: missing and zero both give 0.\<close>

definition or0 :: "real option \<Rightarrow> real" where
  "or0 v = (case v of None \<Rightarrow> 0 | Some x \<Rightarrow> x)"

section \<open>FaceRecognitionEngine.calculateFaceQuality\<close>

text \<open>The body of the \<^verbatim>\<open>try\<close> block; \<open>Inl\<close> is an exception raised inside it.\<close>

definition calculateFaceQuality_try :: "detection \<Rightarrow> js_error + real" where
  "calculateFaceQuality_try d =
     (case detection d of
        None \<Rightarrow> Inl undefinedProperty
      | Some fd \<Rightarrow>
          (case box fd of
             None \<Rightarrow> Inl undefinedProperty
           | Some faceBox \<Rightarrow>
               (let faceArea = width faceBox * height faceBox;
                    sizeQuality = min (faceArea / 40000) 1;
                    landmarkQuality = (if landmarks d then 0.8 else 0.3);
                    expressionQuality =
                      (case expressions d of
                         None \<Rightarrow> 0.5
                       | Some e \<Rightarrow> max (or0 (neutral e)) (or0 (happy e) * 0.8));
                    confidenceQuality = score fd;
                    overallQuality =
                      sizeQuality * 0.3 + landmarkQuality * 0.2
                        + expressionQuality * 0.2 + confidenceQuality * 0.3
                in Inr (min (max overallQuality 0) 1))))"

text \<open>The \<^verbatim>\<open>catch\<close> block turns every exception into the default quality 0.5.\<close>

definition calculateFaceQuality :: "detection \<Rightarrow> real" where
  "calculateFaceQuality d =
     (case calculateFaceQuality_try d of Inl error \<Rightarrow> 0.5 | Inr q \<Rightarrow> q)"

section \<open>DatabaseManager\<close>

text \<open>
  The object stores are the lists of \<open>MockDatabaseManager\<close>, which mimics the production
  manager; the \<open>isInitialized\<close> guard is the production manager's. A request to the
  store itself is taken to succeed. Wall-clock strings (\<^verbatim>\<open>createdAt\<close>, \<^verbatim>\<open>timestamp\<close>,
  \<^verbatim>\<open>lastSeen\<close>) are left out of the records.
\<close>

record user =
  user_id :: int
  user_name :: string
  email :: string
  department :: string
  role :: string
  totalAttendance :: nat

record user_data =
  ud_name :: string
  ud_email :: string
  ud_department :: string
  ud_role :: string

record face_descriptor_entry =
  fd_id :: int
  fd_userId :: int
  fd_descriptor :: "real list"
  fd_quality :: real

text \<open>\<open>a_userId = None\<close> is a user id that is NaN.\<close>

record attendance_record =
  a_id :: int
  a_userId :: "int option"
  a_confidence :: real
  a_quality :: real
  a_detectionCount :: nat

record database =
  db_isInitialized :: bool
  users :: "user list"
  faceDescriptors :: "face_descriptor_entry list"
  attendanceRecords :: "attendance_record list"
  systemLogs :: "(string \<times> string) list"
  nextUserId :: int
  nextFaceDescriptorId :: int
  nextAttendanceId :: int

text \<open>An initialized manager with empty stores, as \<open>MockDatabaseManager\<close> constructs it.\<close>

definition newDatabase :: database where
  "newDatabase =
     \<lparr>db_isInitialized = True, users = [], faceDescriptors = [], attendanceRecords = [],
      systemLogs = [], nextUserId = 1, nextFaceDescriptorId = 1, nextAttendanceId = 1\<rparr>"

definition notInitialized :: js_error where
  "notInitialized = Error ''Database not initialized''"

definition logActivity :: "string \<Rightarrow> string \<Rightarrow> database \<Rightarrow> database" where
  "logActivity level msg d =
     (if \<not> db_isInitialized d then d
      else d\<lparr>systemLogs := systemLogs d @ [(level, msg)]\<rparr>)"

definition getAllUsers :: "database \<Rightarrow> js_error + user list" where
  "getAllUsers d = (if \<not> db_isInitialized d then Inl notInitialized else Inr (users d))"

definition getFaceDescriptors :: "database \<Rightarrow> js_error + face_descriptor_entry list" where
  "getFaceDescriptors d =
     (if \<not> db_isInitialized d then Inl notInitialized else Inr (faceDescriptors d))"

definition addUser :: "user_data \<Rightarrow> database \<Rightarrow> (js_error + int) \<times> database" where
  "addUser userData d =
     (if \<not> db_isInitialized d then (Inl notInitialized, d)
      else
        let u = \<lparr>user_id = nextUserId d, user_name = ud_name userData,
                   email = ud_email userData, department = ud_department userData,
                   role = ud_role userData, totalAttendance = 0\<rparr>;
            d1 = d\<lparr>users := users d @ [u], nextUserId := nextUserId d + 1\<rparr>
        in (Inr (user_id u), logActivity ''info'' (''User added: '' @ user_name u) d1))"

definition addFaceDescriptor ::
  "int \<Rightarrow> real list \<Rightarrow> real \<Rightarrow> database \<Rightarrow> (js_error + int) \<times> database" where
  "addFaceDescriptor userId desc q d =
     (if \<not> db_isInitialized d then (Inl notInitialized, d)
      else
        let fd = \<lparr>fd_id = nextFaceDescriptorId d, fd_userId = userId,
                    fd_descriptor = desc, fd_quality = q\<rparr>;
            d1 = d\<lparr>faceDescriptors := faceDescriptors d @ [fd],
                   nextFaceDescriptorId := nextFaceDescriptorId d + 1\<rparr>
        in (Inr (fd_id fd),
            logActivity ''info'' (''Face descriptor added for user '' @ show_int userId) d1))"

text \<open>The first user with the given id gets one more attendance; a NaN id finds nobody.\<close>

fun countAttendance :: "int option \<Rightarrow> user list \<Rightarrow> user list" where
  "countAttendance userId [] = []"
| "countAttendance userId (u # us) =
     (if Some (user_id u) = userId then u\<lparr>totalAttendance := totalAttendance u + 1\<rparr> # us
      else u # countAttendance userId us)"

definition show_userId :: "int option \<Rightarrow> string" where
  "show_userId userId = (case userId of None \<Rightarrow> ''NaN'' | Some i \<Rightarrow> show_int i)"

definition addAttendanceRecord ::
  "int option \<Rightarrow> real \<Rightarrow> real \<Rightarrow> nat \<Rightarrow> database \<Rightarrow> (js_error + int) \<times> database" where
  "addAttendanceRecord userId conf q detectionCount d =
     (if \<not> db_isInitialized d then (Inl notInitialized, d)
      else
        let r = \<lparr>a_id = nextAttendanceId d, a_userId = userId, a_confidence = conf,
                   a_quality = q, a_detectionCount = detectionCount\<rparr>;
            d1 = d\<lparr>attendanceRecords := attendanceRecords d @ [r],
                   nextAttendanceId := nextAttendanceId d + 1,
                   users := countAttendance userId (users d)\<rparr>
        in (Inr (a_id r),
            logActivity ''info'' (''Attendance recorded for user '' @ show_userId userId) d1))"

section \<open>FaceRecognitionEngine\<close>

record labeled_face_descriptors =
  label :: string
  descriptors :: "real list list"

record face_match =
  match_label :: string
  distance :: real

record recognition_result =
  r_detection :: detection
  r_match :: face_match
  confidence :: real
  isMatch :: bool
  userId :: "int option"
  quality :: real

record engine =
  isInitialized :: bool
  labeledDescriptors :: "labeled_face_descriptors list"
  recognitionThreshold :: real
  qualityThreshold :: real

definition newEngine :: engine where
  "newEngine =
     \<lparr>isInitialized = False, labeledDescriptors = [], recognitionThreshold = 0.6,
      qualityThreshold = 0.7\<rparr>"

text \<open>
  The part of the running page the three classes share: the database, the engine and
  the toasts shown so far (message and type, oldest first).
\<close>

record world =
  db :: database
  faceEngine :: engine
  toasts :: "(string \<times> string) list"

definition showToast :: "string \<Rightarrow> string \<Rightarrow> world \<Rightarrow> world" where
  "showToast msg type w = w\<lparr>toasts := toasts w @ [(msg, type)]\<rparr>"

definition logActivityW :: "string \<Rightarrow> string \<Rightarrow> world \<Rightarrow> world" where
  "logActivityW level msg w = w\<lparr>db := logActivity level msg (db w)\<rparr>"

definition engineNotInitialized :: js_error where
  "engineNotInitialized = Error ''Face recognition engine not initialized''"

subsection \<open>loadFaceDescriptors\<close>

definition loadFaceDescriptors :: "world \<Rightarrow> js_error option \<times> world" where
  "loadFaceDescriptors w =
     (case getFaceDescriptors (db w) of
        Inl error \<Rightarrow> (Some error, w)
      | Inr ds \<Rightarrow>
          (case getAllUsers (db w) of
             Inl error \<Rightarrow> (Some error, w)
           | Inr us \<Rightarrow>
               (let labeled =
                      concat (map (\<lambda>u.
                        let userDescriptors = filter (\<lambda>d. fd_userId d = user_id u) ds
                        in if length userDescriptors > 0
                           then [\<lparr>label = show_int (user_id u),
                                  descriptors = map fd_descriptor userDescriptors\<rparr>]
                           else []) us)
                in (None, w\<lparr>faceEngine := (faceEngine w)\<lparr>labeledDescriptors := labeled\<rparr>\<rparr>))))"

subsection \<open>detectFaces\<close>

text \<open>
  \<open>raw\<close> is what the detector library returns for the current frame, or the exception
  it throws; \<open>minQuality\<close> is \<^verbatim>\<open>options.minQuality\<close>, used only when truthy.
\<close>

definition detectFaces ::
  "(js_error + detection list) \<Rightarrow> real option \<Rightarrow> world \<Rightarrow> (js_error + detection list) \<times> world" where
  "detectFaces raw minQuality w =
     (if \<not> isInitialized (faceEngine w) then (Inl engineNotInitialized, w)
      else
        case raw of
          Inl error \<Rightarrow>
            (Inl error, logActivityW ''error'' (''Face detection failed: '' @ message error) w)
        | Inr detections \<Rightarrow>
            (if or0 minQuality \<noteq> 0
             then (Inr (filter (\<lambda>d. calculateFaceQuality d \<ge> or0 minQuality) detections), w)
             else (Inr detections, w)))"

subsection \<open>recognizeFaces\<close>

text \<open>
  \<open>findBestMatch\<close> is the library's matcher: built from the gallery and the threshold,
  applied to a descriptor, it returns a label and a distance, or throws.
\<close>

type_synonym matcher =
  "labeled_face_descriptors list \<Rightarrow> real \<Rightarrow> real list \<Rightarrow> js_error + face_match"

fun recognizeFaces_loop :: "matcher \<Rightarrow> engine \<Rightarrow> detection list \<Rightarrow> js_error + recognition_result list" where
  "recognizeFaces_loop findBestMatch e [] = Inr []"
| "recognizeFaces_loop findBestMatch e (d # ds) =
     (case findBestMatch (labeledDescriptors e) (recognitionThreshold e) (descriptor d) of
        Inl error \<Rightarrow> Inl error
      | Inr m \<Rightarrow>
          (case recognizeFaces_loop findBestMatch e ds of
             Inl error \<Rightarrow> Inl error
           | Inr results \<Rightarrow>
               Inr (\<lparr>r_detection = d, r_match = m, confidence = 1 - distance m,
                      isMatch = (match_label m \<noteq> ''unknown''),
                      userId = (if match_label m \<noteq> ''unknown''
                                then parseInt (match_label m) else None),
                      quality = calculateFaceQuality d\<rparr> # results)))"

text \<open>
  \<^verbatim>\<open>results.sort((a, b) => b.confidence - a.confidence)\<close>: the sort is stable and puts
  the highest confidence first.
\<close>

definition sortByConfidence :: "recognition_result list \<Rightarrow> recognition_result list" where
  "sortByConfidence results = sort_key (\<lambda>r. - confidence r) results"

definition recognizeFaces ::
  "matcher \<Rightarrow> detection list \<Rightarrow> world \<Rightarrow> (js_error + recognition_result list) \<times> world" where
  "recognizeFaces findBestMatch detections w =
     (if \<not> isInitialized (faceEngine w) then (Inl engineNotInitialized, w)
      else if length (labeledDescriptors (faceEngine w)) = 0 then (Inr [], w)
      else
        case recognizeFaces_loop findBestMatch (faceEngine w) detections of
          Inr results \<Rightarrow> (Inr (sortByConfidence results), w)
        | Inl error \<Rightarrow>
            (Inl error, logActivityW ''error'' (''Face recognition failed: '' @ message error) w))"

subsection \<open>enrollFace\<close>

definition enrollFace_try ::
  "int \<Rightarrow> real list \<Rightarrow> real \<Rightarrow> world \<Rightarrow> (js_error + int) \<times> world" where
  "enrollFace_try uid faceDescriptor q w =
     (if length faceDescriptor \<noteq> 128 then (Inl (Error ''Invalid face descriptor''), w)
      else
        case addFaceDescriptor uid faceDescriptor q (db w) of
          (Inl error, d1) \<Rightarrow> (Inl error, w\<lparr>db := d1\<rparr>)
        | (Inr descriptorId, d1) \<Rightarrow>
            (case loadFaceDescriptors (w\<lparr>db := d1\<rparr>) of
               (Some error, w2) \<Rightarrow> (Inl error, w2)
             | (None, w2) \<Rightarrow>
                 (Inr descriptorId,
                  logActivityW ''info'' (''Face enrolled for user '' @ show_int uid) w2)))"

definition enrollFace ::
  "int \<Rightarrow> real list \<Rightarrow> real \<Rightarrow> world \<Rightarrow> (js_error + int) \<times> world" where
  "enrollFace uid faceDescriptor q w =
     (if \<not> isInitialized (faceEngine w) then (Inl engineNotInitialized, w)
      else
        case enrollFace_try uid faceDescriptor q w of
          (Inr descriptorId, w1) \<Rightarrow> (Inr descriptorId, w1)
        | (Inl error, w1) \<Rightarrow>
            (Inl error, logActivityW ''error'' (''Face enrollment failed: '' @ message error) w1))"

subsection \<open>validateEnrollmentQuality\<close>

record validation =
  isValid :: bool
  v_quality :: real
  issues :: "string list"

definition validateEnrollmentQuality :: "engine \<Rightarrow> detection \<Rightarrow> js_error + validation" where
  "validateEnrollmentQuality e d =
     (let q = calculateFaceQuality d
      in if q < qualityThreshold e then
           (case detection d of
              None \<Rightarrow> Inl undefinedProperty
            | Some fd \<Rightarrow>
                (case box fd of
                   None \<Rightarrow> Inl undefinedProperty
                 | Some faceBox \<Rightarrow>
                     Inr \<lparr>isValid = (q \<ge> qualityThreshold e), v_quality = q,
                          issues =
                            (if score fd < 0.8 then [''Low face detection confidence''] else [])
                            @ (if width faceBox < 100 \<or> height faceBox < 100
                               then [''Face too small - move closer to camera''] else [])
                            @ (if \<not> landmarks d
                               then [''Face landmarks not detected clearly''] else [])
                            @ (case expressions d of
                                 None \<Rightarrow> []
                               | Some ex \<Rightarrow>
                                   if or0 (neutral ex) < 0.3
                                   then [''Please maintain a neutral expression'']
                                   else [])\<rparr>))
         else Inr \<lparr>isValid = (q \<ge> qualityThreshold e), v_quality = q, issues = []\<rparr>)"

section \<open>AttendanceSystem\<close>

text \<open>
  The fields the capture action reads and writes; the video element, canvas, stream and
  interval handle are page plumbing. The constructor's values are \<open>newAttendanceSystem\<close>.
\<close>

record attendance_system =
  isActive :: bool
  currentDetections :: "detection list"
  lastRecognitionTime :: int
  recognitionCooldown :: int

definition newAttendanceSystem :: attendance_system where
  "newAttendanceSystem =
     \<lparr>isActive = False, currentDetections = [], lastRecognitionTime = 0,
      recognitionCooldown = 3000\<rparr>"

text \<open>
  The \<^verbatim>\<open>bestMatch\<close> constant of \<^verbatim>\<open>captureAttendance\<close>: filter, sort, first element
  (\<^verbatim>\<open>undefined\<close> when the filtered array is empty).
\<close>

definition bestMatch :: "real \<Rightarrow> recognition_result list \<Rightarrow> recognition_result option" where
  "bestMatch threshold recognitionResults =
     (case sortByConfidence
             (filter (\<lambda>result. isMatch result \<and> confidence result \<ge> threshold)
                recognitionResults) of
        [] \<Rightarrow> None
      | r # _ \<Rightarrow> Some r)"

text \<open>
  The \<^verbatim>\<open>try\<close> block of \<^verbatim>\<open>captureAttendance\<close>. \<open>now\<close> is the \<^verbatim>\<open>Date.now()\<close> reading taken
  before the cooldown check. The result is the returned boolean or the exception thrown,
  with the system and the world as they are at that point. Drawing the result card and
  the attendance feed is left out (the page elements are taken to exist).
\<close>

definition captureAttendance_try ::
  "matcher \<Rightarrow> int \<Rightarrow> attendance_system \<Rightarrow> world
     \<Rightarrow> (js_error + bool) \<times> attendance_system \<times> world" where
  "captureAttendance_try findBestMatch now s w =
     (case getAllUsers (db w) of
        Inl error \<Rightarrow> (Inl error, s, w)
      | Inr us \<Rightarrow>
          (case recognizeFaces findBestMatch (currentDetections s) w of
             (Inl error, w1) \<Rightarrow> (Inl error, s, w1)
           | (Inr recognitionResults, w1) \<Rightarrow>
               if length recognitionResults = 0 then
                 (Inr False, s,
                  showToast ''No faces could be processed. Please try again.'' ''error'' w1)
               else
                 (case bestMatch (recognitionThreshold (faceEngine w1)) recognitionResults of
                    Some b \<Rightarrow>
                      (case addAttendanceRecord (userId b) (confidence b) (quality b)
                              (length recognitionResults) (db w1) of
                         (Inl error, d2) \<Rightarrow> (Inl error, s, w1\<lparr>db := d2\<rparr>)
                       | (Inr attendanceId, d2) \<Rightarrow>
                           (case find (\<lambda>u. Some (user_id u) = userId b) us of
                              None \<Rightarrow> (Inl undefinedProperty, s, w1\<lparr>db := d2\<rparr>)
                            | Some u \<Rightarrow>
                                (Inr True, s\<lparr>lastRecognitionTime := now\<rparr>,
                                 showToast
                                   (''Welcome back, '' @ user_name u @ ''! Attendance recorded.'')
                                   ''success'' (w1\<lparr>db := d2\<rparr>))))
                  | None \<Rightarrow>
                      (Inr False, s,
                       showToast
                         ''Face not recognized. Please ensure you are enrolled in the system.''
                         ''error'' w1))))"

text \<open>The \<^verbatim>\<open>try\<close> block followed by the \<^verbatim>\<open>catch\<close> block.\<close>

definition captureAttendance_run ::
  "matcher \<Rightarrow> int \<Rightarrow> attendance_system \<Rightarrow> world \<Rightarrow> bool \<times> attendance_system \<times> world" where
  "captureAttendance_run findBestMatch now s w =
     (case captureAttendance_try findBestMatch now s w of
        (Inr result, s1, w1) \<Rightarrow> (result, s1, w1)
      | (Inl error, s1, w1) \<Rightarrow>
          (False, s1,
           showToast ''Attendance capture failed. Please try again.'' ''error''
             (logActivityW ''error'' (''Attendance capture failed: '' @ message error) w1)))"

definition captureAttendance ::
  "matcher \<Rightarrow> int \<Rightarrow> attendance_system \<Rightarrow> world \<Rightarrow> bool \<times> attendance_system \<times> world" where
  "captureAttendance findBestMatch now s w =
     (if \<not> isActive s \<or> length (currentDetections s) = 0 then
        (False, s,
         showToast ''No faces detected. Please position yourself in front of the camera.''
           ''warning'' w)
      else if now - lastRecognitionTime s < recognitionCooldown s then
        (let remaining =
               \<lceil>real_of_int (recognitionCooldown s - (now - lastRecognitionTime s)) / 1000\<rceil>
         in (False, s,
             showToast (''Please wait '' @ show_int remaining @ '' seconds before next attempt.'')
               ''info'' w))
      else captureAttendance_run findBestMatch now s w)"

section \<open>UserManagement\<close>

record enrollment_sample =
  s_descriptor :: "real list"
  s_quality :: real

record user_management =
  enrollmentSamples :: "enrollment_sample list"
  isEnrolling :: bool
  requiredSamples :: nat

definition newUserManagement :: user_management where
  "newUserManagement = \<lparr>enrollmentSamples = [], isEnrolling = False, requiredSamples = 5\<rparr>"

subsection \<open>startEnrollment\<close>

text \<open>
  \<open>formValid\<close> is \<^verbatim>\<open>form.checkValidity()\<close>; \<open>camera\<close> is the exception of
  \<^verbatim>\<open>getUserMedia\<close> or of the video element, if any.
\<close>

definition startEnrollment ::
  "bool \<Rightarrow> js_error option \<Rightarrow> user_management \<Rightarrow> world \<Rightarrow> bool \<times> user_management \<times> world" where
  "startEnrollment formValid camera um w =
     (if \<not> isInitialized (faceEngine w) then
        (False, um,
         showToast (''Failed to start enrollment: '' @ message engineNotInitialized) ''error'' w)
      else if \<not> formValid then (False, um, w)
      else
        case camera of
          Some error \<Rightarrow>
            (False, um, showToast (''Failed to start enrollment: '' @ message error) ''error'' w)
        | None \<Rightarrow>
            (True, um\<lparr>isEnrolling := True, enrollmentSamples := []\<rparr>,
             showToast
               ''Enrollment started. Position your face in the center and capture samples.''
               ''info'' w))"

subsection \<open>captureEnrollmentSample\<close>

text \<open>
  \<open>raw\<close> is the detector's answer for the enrollment video frame. The timer that calls
  \<^verbatim>\<open>completeEnrollment\<close> one second after the last sample is a later operation of its own.
  This is a call during which nothing else happens; the function is async, and its parts
  between the suspension points follow below.
\<close>

definition captureEnrollmentSample ::
  "(js_error + detection list) \<Rightarrow> user_management \<Rightarrow> world
     \<Rightarrow> bool \<times> user_management \<times> world" where
  "captureEnrollmentSample raw um w =
     (if \<not> isEnrolling um \<or> length (enrollmentSamples um) \<ge> requiredSamples um then
        (False, um, w)
      else
        case detectFaces raw None w of
          (Inl error, w1) \<Rightarrow>
            (False, um, showToast ''Failed to capture sample. Please try again.'' ''error'' w1)
        | (Inr detections, w1) \<Rightarrow>
            (case detections of
               [] \<Rightarrow>
                 (False, um,
                  showToast ''No face detected. Please position yourself properly.''
                    ''warning'' w1)
             | d # others \<Rightarrow>
                 if length detections > 1 then
                   (False, um,
                    showToast
                      ''Multiple faces detected. Please ensure only one person is visible.''
                      ''warning'' w1)
                 else
                   (case validateEnrollmentQuality (faceEngine w1) d of
                      Inl error \<Rightarrow>
                        (False, um,
                         showToast ''Failed to capture sample. Please try again.'' ''error'' w1)
                    | Inr v \<Rightarrow>
                        if \<not> isValid v then
                          (False, um,
                           showToast
                             (''Sample quality too low: '' @ join '', '' (issues v))
                             ''warning'' w1)
                        else
                          (let samples =
                                 enrollmentSamples um
                                   @ [\<lparr>s_descriptor = descriptor d, s_quality = v_quality v\<rparr>]
                           in (True, um\<lparr>enrollmentSamples := samples\<rparr>,
                               showToast
                                 (''Sample '' @ show_nat (length samples) @ ''/''
                                    @ show_nat (requiredSamples um) @ '' captured successfully!'')
                                 ''success'' w1)))))"

subsection \<open>captureEnrollmentSample, part by part\<close>

text \<open>
  The function suspends twice: at \<^verbatim>\<open>await this.faceEngine.detectFaces(...)\<close> and at
  \<^verbatim>\<open>await this.faceEngine.validateEnrollmentQuality(detection)\<close>. A suspended call keeps its
  local variables: at the first point what \<^verbatim>\<open>detectFaces\<close> found when it was called (whether
  the engine was initialized), at the second the detection and the validation computed for
  it. The fields of \<open>this\<close> are read again when the call resumes.
\<close>

datatype capture_call =
  AwaitingDetection bool
| AwaitingValidation detection "js_error + validation"

text \<open>\<^verbatim>\<open>detectFaces\<close> once the library has answered, given the flag it read when called.\<close>

definition detectFaces_answer ::
  "bool \<Rightarrow> (js_error + detection list) \<Rightarrow> real option \<Rightarrow> world
     \<Rightarrow> (js_error + detection list) \<times> world" where
  "detectFaces_answer initialized raw minQuality w =
     (if \<not> initialized then (Inl engineNotInitialized, w)
      else
        case raw of
          Inl error \<Rightarrow>
            (Inl error, logActivityW ''error'' (''Face detection failed: '' @ message error) w)
        | Inr detections \<Rightarrow>
            (if or0 minQuality \<noteq> 0
             then (Inr (filter (\<lambda>d. calculateFaceQuality d \<ge> or0 minQuality) detections), w)
             else (Inr detections, w)))"

text \<open>
  Up to the first suspension: the guard, and the call of \<^verbatim>\<open>detectFaces\<close>. \<open>None\<close> is the
  early \<^verbatim>\<open>return false\<close>.
\<close>

definition captureEnrollmentSample_begin :: "user_management \<Rightarrow> world \<Rightarrow> capture_call option" where
  "captureEnrollmentSample_begin um w =
     (if \<not> isEnrolling um \<or> length (enrollmentSamples um) \<ge> requiredSamples um then None
      else Some (AwaitingDetection (isInitialized (faceEngine w))))"

text \<open>
  From the detector's answer to the second suspension. \<open>Inl\<close> is the returned boolean
  of a call that ends here, \<open>Inr\<close> the call suspended again.
\<close>

definition captureEnrollmentSample_detected ::
  "bool \<Rightarrow> (js_error + detection list) \<Rightarrow> world \<Rightarrow> (bool + capture_call) \<times> world" where
  "captureEnrollmentSample_detected initialized raw w =
     (case detectFaces_answer initialized raw None w of
        (Inl error, w1) \<Rightarrow>
          (Inl False, showToast ''Failed to capture sample. Please try again.'' ''error'' w1)
      | (Inr detections, w1) \<Rightarrow>
          (case detections of
             [] \<Rightarrow>
               (Inl False,
                showToast ''No face detected. Please position yourself properly.''
                  ''warning'' w1)
           | d # others \<Rightarrow>
               if length detections > 1 then
                 (Inl False,
                  showToast
                    ''Multiple faces detected. Please ensure only one person is visible.''
                    ''warning'' w1)
               else (Inr (AwaitingValidation d (validateEnrollmentQuality (faceEngine w1) d)), w1)))"

text \<open>
  After the second suspension: the sample is pushed onto the list as it is now, without
  looking at its length again.
\<close>

definition captureEnrollmentSample_validated ::
  "detection \<Rightarrow> (js_error + validation) \<Rightarrow> user_management \<Rightarrow> world
     \<Rightarrow> bool \<times> user_management \<times> world" where
  "captureEnrollmentSample_validated d validated um w1 =
     (case validated of
        Inl error \<Rightarrow>
          (False, um, showToast ''Failed to capture sample. Please try again.'' ''error'' w1)
      | Inr v \<Rightarrow>
          if \<not> isValid v then
            (False, um,
             showToast (''Sample quality too low: '' @ join '', '' (issues v)) ''warning'' w1)
          else
            (let samples =
                   enrollmentSamples um
                     @ [\<lparr>s_descriptor = descriptor d, s_quality = v_quality v\<rparr>]
             in (True, um\<lparr>enrollmentSamples := samples\<rparr>,
                 showToast
                   (''Sample '' @ show_nat (length samples) @ ''/''
                      @ show_nat (requiredSamples um) @ '' captured successfully!'')
                   ''success'' w1)))"

subsection \<open>stopEnrollment and completeEnrollment\<close>

definition stopEnrollment :: "user_management \<Rightarrow> user_management" where
  "stopEnrollment um = um\<lparr>isEnrolling := False, enrollmentSamples := []\<rparr>"

text \<open>The loop over the samples; it stops at the first exception.\<close>

fun enrollSamples :: "int \<Rightarrow> enrollment_sample list \<Rightarrow> world \<Rightarrow> js_error option \<times> world" where
  "enrollSamples uid [] w = (None, w)"
| "enrollSamples uid (sample # samples) w =
     (case enrollFace uid (s_descriptor sample) (s_quality sample) w of
        (Inl error, w1) \<Rightarrow> (Some error, w1)
      | (Inr descriptorId, w1) \<Rightarrow> enrollSamples uid samples w1)"

text \<open>
  The \<^verbatim>\<open>try\<close> block; \<open>userData\<close> is read from the form (an empty role is replaced by
  \<^verbatim>\<open>"Employee"\<close>).
\<close>

definition completeEnrollment_try ::
  "user_data \<Rightarrow> user_management \<Rightarrow> world \<Rightarrow> js_error option \<times> user_management \<times> world" where
  "completeEnrollment_try form um w =
     (let userData = form\<lparr>ud_role := (if ud_role form = [] then ''Employee'' else ud_role form)\<rparr>
      in case getAllUsers (db w) of
           Inl error \<Rightarrow> (Some error, um, w)
         | Inr existingUsers \<Rightarrow>
             if list_ex (\<lambda>u. email u = ud_email userData) existingUsers then
               (Some (Error ''Email already exists in the system''), um, w)
             else
               (case addUser userData (db w) of
                  (Inl error, d1) \<Rightarrow> (Some error, um, w\<lparr>db := d1\<rparr>)
                | (Inr uid, d1) \<Rightarrow>
                    (case enrollSamples uid (enrollmentSamples um) (w\<lparr>db := d1\<rparr>) of
                       (Some error, w2) \<Rightarrow> (Some error, um, w2)
                     | (None, w2) \<Rightarrow>
                         (None, stopEnrollment um,
                          showToast (''User '' @ ud_name userData @ '' enrolled successfully!'')
                            ''success'' w2))))"

definition completeEnrollment ::
  "user_data \<Rightarrow> user_management \<Rightarrow> world \<Rightarrow> bool \<times> user_management \<times> world" where
  "completeEnrollment form um w =
     (if length (enrollmentSamples um) < requiredSamples um then
        (False, um,
         showToast
           (''Need '' @ show_nat (requiredSamples um - length (enrollmentSamples um))
              @ '' more samples.'')
           ''warning'' w)
      else
        case completeEnrollment_try form um w of
          (None, um1, w1) \<Rightarrow> (True, um1, w1)
        | (Some error, um1, w1) \<Rightarrow>
            (False, um1,
             showToast (''Enrollment failed: '' @ message error) ''error''
               (logActivityW ''error'' (''Enrollment failed: '' @ message error) w1)))"

section \<open>enhanced-script.js: capture and retry\<close>

text \<open>
  The globals of the script and the toasts shown so far. \<open>videoStream\<close> and
  \<open>capturedImage\<close> are null or not; status line, buttons, sound and local storage are
  page plumbing. \<open>processing\<close> is not a global of the script: it counts the calls of
  \<^verbatim>\<open>checkAttendance\<close> that are suspended at \<^verbatim>\<open>await simulateProcessing(2000)\<close>. The
  other handlers have no suspension point.
\<close>

record demo_user =
  du_id :: int
  du_name :: string
  du_department :: string
  attendanceCount :: nat

record script =
  videoStream :: bool
  isScanning :: bool
  capturedImage :: "string option"
  recognitionAttempts :: int
  userDatabase :: "demo_user list"
  shown :: "(string \<times> string) list"
  processing :: nat

definition MAX_ATTEMPTS :: int where
  "MAX_ATTEMPTS = 3"

definition initialScript :: script where
  "initialScript =
     \<lparr>videoStream = False, isScanning = False, capturedImage = None, recognitionAttempts = 0,
      userDatabase =
        [\<lparr>du_id = 1, du_name = ''Alice Johnson'', du_department = ''Engineering'',
           attendanceCount = 0\<rparr>,
         \<lparr>du_id = 2, du_name = ''Bob Smith'', du_department = ''Marketing'',
           attendanceCount = 0\<rparr>,
         \<lparr>du_id = 3, du_name = ''Carol Davis'', du_department = ''HR'', attendanceCount = 0\<rparr>,
         \<lparr>du_id = 4, du_name = ''David Wilson'', du_department = ''Finance'',
           attendanceCount = 0\<rparr>],
      shown = [], processing = 0\<rparr>"

definition toast :: "string \<Rightarrow> string \<Rightarrow> script \<Rightarrow> script" where
  "toast msg type st = st\<lparr>shown := shown st @ [(msg, type)]\<rparr>"

subsection \<open>Camera and capture\<close>

text \<open>\<^verbatim>\<open>startCamera\<close> when the camera is granted, and \<^verbatim>\<open>stopCamera\<close>.\<close>

definition startCamera :: "script \<Rightarrow> script" where
  "startCamera st =
     toast
       ''Camera started successfully! Use keyboard shortcuts: S=Start, C=Capture, A=Attendance''
       ''success'' (st\<lparr>videoStream := True\<rparr>)"

definition stopCamera :: "script \<Rightarrow> script" where
  "stopCamera st =
     (if videoStream st then toast ''Camera stopped'' ''info'' (st\<lparr>videoStream := False\<rparr>)
      else st)"

definition startCountdown :: "script \<Rightarrow> script" where
  "startCountdown st = (if isScanning st then st else st\<lparr>isScanning := True\<rparr>)"

definition captureImage :: "script \<Rightarrow> script" where
  "captureImage st =
     (if \<not> videoStream st then toast ''Please start camera first'' ''warning'' st
      else startCountdown (st\<lparr>recognitionAttempts := 0\<rparr>))"

definition cancelScanning :: "script \<Rightarrow> script" where
  "cancelScanning st =
     (if isScanning st then toast ''Scanning cancelled'' ''warning'' (st\<lparr>isScanning := False\<rparr>)
      else st)"

definition performCapture :: "string \<Rightarrow> script \<Rightarrow> script" where
  "performCapture dataUrl st =
     toast
       (''Image captured! Click '' @ [CHR 0x22] @ ''Check Attendance'' @ [CHR 0x22]
          @ '' to proceed'')
       ''success'' (st\<lparr>capturedImage := Some dataUrl\<rparr>)"

text \<open>
  The timer at the end of the countdown: it captures only while scanning has not been
  cancelled. \<open>dataUrl\<close> is the captured frame.
\<close>

definition countdownElapsed :: "string \<Rightarrow> script \<Rightarrow> script" where
  "countdownElapsed dataUrl st =
     (if isScanning st then (performCapture dataUrl st)\<lparr>isScanning := False\<rparr> else st)"

subsection \<open>checkAttendance\<close>

definition successRate :: "int \<Rightarrow> real" where
  "successRate attempts = max 0.3 (0.7 - real_of_int (attempts - 1) * 0.1)"

text \<open>
  \<^verbatim>\<open>checkAttendance\<close> is an async function with one suspension point. The part before
  \<^verbatim>\<open>await simulateProcessing(2000)\<close> returns early without a captured image (\<open>False\<close>),
  and otherwise counts the attempt and announces it (\<open>True\<close>: the call is now suspended).
\<close>

definition checkAttendance_begin :: "script \<Rightarrow> bool \<times> script" where
  "checkAttendance_begin st =
     (case capturedImage st of
        None \<Rightarrow> (False, toast ''Please capture an image first'' ''warning'' st)
      | Some dataUrl \<Rightarrow>
          (let st1 = st\<lparr>recognitionAttempts := recognitionAttempts st + 1\<rparr>
           in (True,
               toast
                 (''Processing face recognition... (Attempt ''
                    @ show_int (recognitionAttempts st1) @ ''/'' @ show_int MAX_ATTEMPTS @ '')'')
                 ''info'' st1)))"

text \<open>
  The part after the await. It has no local state of the first part: it reads the global
  \<open>recognitionAttempts\<close> again, as it is when the call resumes. \<open>r1\<close> and \<open>r2\<close> are
  the two readings of \<^verbatim>\<open>Math.random()\<close>. When the picked index is outside the user list
  the handler ends with a TypeError, leaving the globals as they are at that point.
\<close>

definition checkAttendance_resume :: "real \<Rightarrow> real \<Rightarrow> script \<Rightarrow> script" where
  "checkAttendance_resume r1 r2 st1 =
     (let isRecognized = (r1 < successRate (recognitionAttempts st1))
      in if isRecognized then
           (let i = \<lfloor>r2 * real (length (userDatabase st1))\<rfloor>
            in if 0 \<le> i \<and> i < int (length (userDatabase st1)) then
                 (let u = (userDatabase st1 ! nat i)
                            \<lparr>attendanceCount := attendanceCount (userDatabase st1 ! nat i) + 1\<rparr>;
                      st2 = toast
                              (''Welcome back, '' @ du_name u @ ''! (''
                                 @ show_nat (attendanceCount u) @ '' total check-ins)'')
                              ''success''
                              (st1\<lparr>userDatabase := (userDatabase st1)[nat i := u]\<rparr>)
                  in st2\<lparr>capturedImage := None, recognitionAttempts := 0\<rparr>)
               else st1)
         else
           (let st2 = toast ''Face not recognized - please try again'' ''error'' st1
            in if recognitionAttempts st2 \<ge> MAX_ATTEMPTS then
                 (toast
                    (''Maximum attempts ('' @ show_int MAX_ATTEMPTS
                       @ '') reached. Please try again later.'')
                    ''error'' st2)
                   \<lparr>capturedImage := None, recognitionAttempts := 0\<rparr>
               else
                 toast
                   (''Recognition failed. '' @ show_int (MAX_ATTEMPTS - recognitionAttempts st2)
                      @ '' attempts remaining.'')
                   ''warning'' st2))"

text \<open>
  A call during which no other handler runs: the second part follows the first at once.
\<close>

definition checkAttendance :: "real \<Rightarrow> real \<Rightarrow> script \<Rightarrow> script" where
  "checkAttendance r1 r2 st =
     (case checkAttendance_begin st of
        (False, st1) \<Rightarrow> st1
      | (True, st1) \<Rightarrow> checkAttendance_resume r1 r2 st1)"

section \<open>Sequences of operations\<close>

subsection \<open>Enrollment\<close>

text \<open>
  The operations a page can invoke on \<open>UserManagement\<close>, each with the inputs it reads
  from the form, the camera and the detector. \<open>enrollmentStep\<close> is an operation during
  which nothing else happens, and \<open>runEnrollment\<close> a sequence of such operations.
\<close>

datatype enrollment_op =
  StartEnrollment bool "js_error option"
| CaptureEnrollmentSample "js_error + detection list"
| CompleteEnrollment user_data
| StopEnrollment

fun enrollmentStep :: "enrollment_op \<Rightarrow> user_management \<times> world \<Rightarrow> user_management \<times> world" where
  "enrollmentStep (StartEnrollment formValid camera) (um, w) = snd (startEnrollment formValid camera um w)"
| "enrollmentStep (CaptureEnrollmentSample raw) (um, w) = snd (captureEnrollmentSample raw um w)"
| "enrollmentStep (CompleteEnrollment form) (um, w) = snd (completeEnrollment form um w)"
| "enrollmentStep StopEnrollment (um, w) = (stopEnrollment um, w)"

definition runEnrollment :: "enrollment_op list \<Rightarrow> user_management \<times> world \<Rightarrow> user_management \<times> world" where
  "runEnrollment ops start = fold enrollmentStep ops start"

text \<open>
  Runs in which captures may overlap. The state also holds the suspended calls of
  \<^verbatim>\<open>captureEnrollmentSample\<close>, oldest first. \<open>CaptureBegin\<close> is a click on the capture
  button (enabled whenever the session is enrolling): the call runs up to its first
  suspension. \<open>CaptureDetected i raw\<close> resumes the suspended call number \<open>i\<close> with the
  detector's answer, \<open>CaptureValidated i\<close> resumes it after the validation; an event that
  names no call in that state does nothing. \<open>Alone\<close> is an operation of \<open>enrollmentStep\<close>.
\<close>

datatype enrollment_event =
  Alone enrollment_op
| CaptureBegin
| CaptureDetected nat "js_error + detection list"
| CaptureValidated nat

definition dropCall :: "nat \<Rightarrow> capture_call list \<Rightarrow> capture_call list" where
  "dropCall i calls = take i calls @ drop (Suc i) calls"

fun enrollmentEvent ::
  "enrollment_event \<Rightarrow> user_management \<times> world \<times> capture_call list
     \<Rightarrow> user_management \<times> world \<times> capture_call list" where
  "enrollmentEvent (Alone op) (um, w, calls) =
     (case enrollmentStep op (um, w) of (um1, w1) \<Rightarrow> (um1, w1, calls))"
| "enrollmentEvent CaptureBegin (um, w, calls) =
     (case captureEnrollmentSample_begin um w of
        None \<Rightarrow> (um, w, calls)
      | Some call \<Rightarrow> (um, w, calls @ [call]))"
| "enrollmentEvent (CaptureDetected i raw) (um, w, calls) =
     (if i < length calls then
        (case calls ! i of
           AwaitingDetection initialized \<Rightarrow>
             (case captureEnrollmentSample_detected initialized raw w of
                (Inl result, w1) \<Rightarrow> (um, w1, dropCall i calls)
              | (Inr call, w1) \<Rightarrow> (um, w1, calls[i := call]))
         | AwaitingValidation d validated \<Rightarrow> (um, w, calls))
      else (um, w, calls))"
| "enrollmentEvent (CaptureValidated i) (um, w, calls) =
     (if i < length calls then
        (case calls ! i of
           AwaitingDetection initialized \<Rightarrow> (um, w, calls)
         | AwaitingValidation d validated \<Rightarrow>
             (case captureEnrollmentSample_validated d validated um w of
                (result, um1, w1) \<Rightarrow> (um1, w1, dropCall i calls)))
      else (um, w, calls))"

definition runEvents ::
  "enrollment_event list \<Rightarrow> user_management \<times> world \<times> capture_call list
     \<Rightarrow> user_management \<times> world \<times> capture_call list" where
  "runEvents events start = fold enrollmentEvent events start"

subsection \<open>Capture and retry\<close>

text \<open>
  The handlers of enhanced-script.js as events, with the readings of \<^verbatim>\<open>Math.random()\<close>
  they consume; a reading is valid when it lies in the interval from 0 (included) to 1
  (excluded). \<open>CheckAttendance\<close> is a call of \<^verbatim>\<open>checkAttendance\<close> during which nothing
  else happens. \<open>CheckAttendanceBegin\<close> is a call up to its suspension, and
  \<open>CheckAttendanceResume\<close> the rest of one suspended call, two seconds later; between the
  two any other event may occur, also another \<open>CheckAttendanceBegin\<close>, since the page
  disables neither the button nor the key while a call is processing.
\<close>

datatype script_event =
  StartCamera
| StopCamera
| CaptureImage
| CancelScanning
| CountdownElapsed string
| CheckAttendance real real
| CheckAttendanceBegin
| CheckAttendanceResume real real

fun scriptStep :: "script_event \<Rightarrow> script \<Rightarrow> script" where
  "scriptStep StartCamera st = startCamera st"
| "scriptStep StopCamera st = stopCamera st"
| "scriptStep CaptureImage st = captureImage st"
| "scriptStep CancelScanning st = cancelScanning st"
| "scriptStep (CountdownElapsed dataUrl) st = countdownElapsed dataUrl st"
| "scriptStep (CheckAttendance r1 r2) st = checkAttendance r1 r2 st"
| "scriptStep CheckAttendanceBegin st =
     (case checkAttendance_begin st of
        (False, st1) \<Rightarrow> st1
      | (True, st1) \<Rightarrow> st1\<lparr>processing := processing st1 + 1\<rparr>)"
| "scriptStep (CheckAttendanceResume r1 r2) st =
     (if processing st = 0 then st
      else checkAttendance_resume r1 r2 (st\<lparr>processing := processing st - 1\<rparr>))"

definition runScript :: "script_event list \<Rightarrow> script \<Rightarrow> script" where
  "runScript events st = fold scriptStep events st"

fun validEvent :: "script_event \<Rightarrow> bool" where
  "validEvent (CheckAttendance r1 r2) = (0 \<le> r1 \<and> r1 < 1 \<and> 0 \<le> r2 \<and> r2 < 1)"
| "validEvent (CheckAttendanceResume r1 r2) = (0 \<le> r1 \<and> r1 < 1 \<and> 0 \<le> r2 \<and> r2 < 1)"
| "validEvent e = True"

text \<open>An event of a run in which no call of \<^verbatim>\<open>checkAttendance\<close> overlaps another event.\<close>

fun aloneEvent :: "script_event \<Rightarrow> bool" where
  "aloneEvent CheckAttendanceBegin = False"
| "aloneEvent (CheckAttendanceResume r1 r2) = False"
| "aloneEvent e = True"

text \<open>
  The retry budget between two handlers: fewer than \<open>MAX_ATTEMPTS\<close> attempts are counted,
  and there is a user to pick.
\<close>

definition budgetInvariant :: "script \<Rightarrow> bool" where
  "budgetInvariant st \<longleftrightarrow>
     0 \<le> recognitionAttempts st \<and> recognitionAttempts st < MAX_ATTEMPTS \<and> userDatabase st \<noteq> []"

subsection \<open>Example inputs\<close>

text \<open>
  Concrete inputs on which the properties below are evaluated: a detection of a
  200 by 200 face whose descriptor is the single number \<open>x\<close>, a matcher that reports
  that number as the distance to the identity labelled 1 (unknown beyond the threshold),
  and a world with one enrolled user.
\<close>

definition demoDetection :: "real \<Rightarrow> detection" where
  "demoDetection x =
     \<lparr>detection = Some \<lparr>box = Some \<lparr>width = 200, height = 200\<rparr>, score = 1\<rparr>,
      landmarks = True, expressions = None, descriptor = [x]\<rparr>"

definition demoMatcher :: matcher where
  "demoMatcher gallery threshold desc =
     (case desc of
        [] \<Rightarrow> Inl (Error ''empty descriptor'')
      | x # _ \<Rightarrow>
          Inr \<lparr>match_label = (if x \<le> threshold then ''1'' else ''unknown''), distance = x\<rparr>)"

definition demoWorld :: world where
  "demoWorld =
     \<lparr>db = newDatabase
              \<lparr>users := [\<lparr>user_id = 1, user_name = ''Alice'', email = ''alice@example.org'',
                          department = ''Engineering'', role = ''Employee'',
                          totalAttendance = 0\<rparr>],
               nextUserId := 2\<rparr>,
      faceEngine = newEngine
              \<lparr>isInitialized := True,
               labeledDescriptors := [\<lparr>label = ''1'', descriptors = [[2 / 5]]\<rparr>]\<rparr>,
      toasts = []\<rparr>"

definition demoSystem :: "detection list \<Rightarrow> int \<Rightarrow> attendance_system" where
  "demoSystem detections lastSuccess =
     newAttendanceSystem
       \<lparr>isActive := True, currentDetections := detections, lastRecognitionTime := lastSuccess\<rparr>"

text \<open>
  An enrollment session that has accepted \<open>n\<close> samples of \<open>demoDetection (2 / 5)\<close>.
\<close>

definition demoEnrollment :: "nat \<Rightarrow> user_management" where
  "demoEnrollment n =
     newUserManagement
       \<lparr>isEnrolling := True,
        enrollmentSamples := replicate n \<lparr>s_descriptor = [2 / 5], s_quality = 43 / 50\<rparr>\<rparr>"

section \<open>Properties of the quality score\<close>

text \<open>
  C1, as stated, fails: a detection with confidence 1, a 200 by 200 box (area 40000),
  landmarks and a neutral score of 1 is scored 0.3 + 0.8 * 0.2 + 0.2 + 0.3 = 0.96, because
  the landmark signal is 0.8 at best.
\<close>

theorem calculateFaceQuality_ideal_counterexample:
  "calculateFaceQuality
     \<lparr>detection = Some \<lparr>box = Some \<lparr>width = 200, height = 200\<rparr>, score = 1\<rparr>,
      landmarks = True, expressions = Some \<lparr>neutral = Some 1, happy = Some 0\<rparr>,
      descriptor = []\<rparr> = 24 / 25
   \<and> calculateFaceQuality
     \<lparr>detection = Some \<lparr>box = Some \<lparr>width = 200, height = 200\<rparr>, score = 1\<rparr>,
      landmarks = True, expressions = Some \<lparr>neutral = Some 1, happy = Some 0\<rparr>,
      descriptor = []\<rparr> \<noteq> 1"
  by (simp add: calculateFaceQuality_def calculateFaceQuality_try_def or0_def)

text \<open>
  C1, amended: for every detection with detector confidence 1, a bounding box of area at
  least 40000, landmarks present, a neutral score of 1 and a happy score of at most 1,
  \<open>calculateFaceQuality\<close> returns 0.96.
\<close>

theorem calculateFaceQuality_ideal:
  assumes "detection d = Some fd" and "box fd = Some b" and "score fd = 1"
    and "40000 \<le> width b * height b" and "landmarks d"
    and "expressions d = Some ex" and "neutral ex = Some 1" and "or0 (happy ex) \<le> 1"
  shows "calculateFaceQuality d = 24 / 25"
proof -
  have size: "min (width b * height b / 40000) 1 = 1"
    using assms(4) by simp
  have expr: "max (or0 (neutral ex)) (or0 (happy ex) * 0.8) = 1"
    using assms(7,8) by (simp add: or0_def max_def)
  show ?thesis
    using assms(1,2,3,5,6) size expr
    by (simp add: calculateFaceQuality_def calculateFaceQuality_try_def)
qed

theorem calculateFaceQuality_ideal_witness:
  "(40000::real) \<le> 300 * 250
   \<and> calculateFaceQuality
     \<lparr>detection = Some \<lparr>box = Some \<lparr>width = 300, height = 250\<rparr>, score = 1\<rparr>,
      landmarks = True, expressions = Some \<lparr>neutral = Some 1, happy = Some (1 / 2)\<rparr>,
      descriptor = []\<rparr> = 24 / 25"
proof
  show "(40000::real) \<le> 300 * 250" by simp
  show "calculateFaceQuality
     \<lparr>detection = Some \<lparr>box = Some \<lparr>width = 300, height = 250\<rparr>, score = 1\<rparr>,
      landmarks = True, expressions = Some \<lparr>neutral = Some 1, happy = Some (1 / 2)\<rparr>,
      descriptor = []\<rparr> = 24 / 25"
    by (rule calculateFaceQuality_ideal
          [where fd = "\<lparr>box = Some \<lparr>width = 300, height = 250\<rparr>, score = 1\<rparr>"
             and b = "\<lparr>width = 300, height = 250\<rparr>"
             and ex = "\<lparr>neutral = Some 1, happy = Some (1 / 2)\<rparr>"])
       (simp_all add: or0_def)
qed

text \<open>
  C2, as stated, fails: without landmarks and without expression scores the score is
  still the weighted sum, with 0.3 and 0.5 standing in for the two missing signals. A
  200 by 200 box with confidence 1 gives 0.3 + 0.06 + 0.1 + 0.3 = 0.76, not 0.5.
\<close>

theorem calculateFaceQuality_defaults_counterexample:
  "calculateFaceQuality
     \<lparr>detection = Some \<lparr>box = Some \<lparr>width = 200, height = 200\<rparr>, score = 1\<rparr>,
      landmarks = False, expressions = None, descriptor = []\<rparr> = 19 / 25
   \<and> calculateFaceQuality
     \<lparr>detection = Some \<lparr>box = Some \<lparr>width = 200, height = 200\<rparr>, score = 1\<rparr>,
      landmarks = False, expressions = None, descriptor = []\<rparr> \<noteq> 1 / 2"
  by (simp add: calculateFaceQuality_def calculateFaceQuality_try_def or0_def)

text \<open>
  C2, amended: for every detection without landmarks and without expression scores,
  \<open>calculateFaceQuality\<close> returns the clamped weighted sum in which the landmark signal
  is 0.3 and the expression signal is 0.5; it returns the fixed fallback 0.5 when the
  bounding box cannot be read, and every exception of the computation ends in that
  fallback, so none is propagated.
\<close>

theorem calculateFaceQuality_defaults:
  assumes "\<not> landmarks d" and "expressions d = None"
  shows "calculateFaceQuality d =
           (case detection d of
              None \<Rightarrow> 1 / 2
            | Some fd \<Rightarrow>
                (case box fd of
                   None \<Rightarrow> 1 / 2
                 | Some b \<Rightarrow>
                     min (max (min (width b * height b / 40000) 1 * 0.3 + 0.3 * 0.2
                                 + 0.5 * 0.2 + score fd * 0.3) 0) 1))
         \<and> (\<forall>error. calculateFaceQuality_try d = Inl error
                \<longrightarrow> calculateFaceQuality d = 1 / 2)"
  using assms
  by (simp add: calculateFaceQuality_def calculateFaceQuality_try_def Let_def
           split: option.splits)

theorem calculateFaceQuality_defaults_witness:
  "calculateFaceQuality
     \<lparr>detection = Some \<lparr>box = Some \<lparr>width = 100, height = 100\<rparr>, score = 1 / 2\<rparr>,
      landmarks = False, expressions = None, descriptor = []\<rparr> = 77 / 200
   \<and> calculateFaceQuality
     \<lparr>detection = None, landmarks = False, expressions = None, descriptor = []\<rparr> = 1 / 2"
  using calculateFaceQuality_defaults
          [of "\<lparr>detection = Some \<lparr>box = Some \<lparr>width = 100, height = 100\<rparr>, score = 1 / 2\<rparr>,
                landmarks = False, expressions = None, descriptor = []\<rparr>"]
        calculateFaceQuality_defaults
          [of "\<lparr>detection = None, landmarks = False, expressions = None, descriptor = []\<rparr>"]
  by simp

section \<open>Properties of the attendance decision\<close>

subsection \<open>The first element of a stable sort\<close>

lemma sort_key_Cons_split:
  fixes f :: "'a \<Rightarrow> 'k::linorder"
  shows "sort_key f xs = b # rest \<Longrightarrow>
     \<exists>pre post. xs = pre @ b # post \<and> (\<forall>x\<in>set pre. f b < f x) \<and> (\<forall>x\<in>set post. f b \<le> f x)"
proof (induction xs arbitrary: b rest)
  case Nil
  then show ?case by simp
next
  case (Cons x xs)
  note IH = Cons.IH and prems = Cons.prems
  show ?case
  proof (cases "sort_key f xs")
    case Nil
    then have "xs = []" by (metis set_sort set_empty)
    with prems have "x # xs = [] @ b # [] \<and> (\<forall>y\<in>set []. f b < f y) \<and> (\<forall>y\<in>set []. f b \<le> f y)"
      by simp
    then show ?thesis by blast
  next
    case (Cons c cs)
    from IH [OF Cons] obtain pre post
      where split: "xs = pre @ c # post" "\<forall>y\<in>set pre. f c < f y" "\<forall>y\<in>set post. f c \<le> f y"
      by blast
    show ?thesis
    proof (cases "f x \<le> f c")
      case True
      with Cons prems have "b = x" by simp
      moreover have "\<forall>y\<in>set xs. f x \<le> f y"
        using split True by (auto intro: order_trans less_imp_le)
      ultimately have "x # xs = [] @ b # xs \<and> (\<forall>y\<in>set []. f b < f y) \<and> (\<forall>y\<in>set xs. f b \<le> f y)"
        by simp
      then show ?thesis by blast
    next
      case False
      with Cons prems have "b = c" by simp
      with split False
      have "x # xs = (x # pre) @ b # post \<and> (\<forall>y\<in>set (x # pre). f b < f y) \<and> (\<forall>y\<in>set post. f b \<le> f y)"
        by auto
      then show ?thesis by blast
    qed
  qed
qed

lemma filter_split:
  "filter P xs = pre @ b # post \<Longrightarrow>
     \<exists>pre' post'. xs = pre' @ b # post' \<and> filter P pre' = pre \<and> filter P post' = post \<and> P b"
proof (induction xs arbitrary: pre)
  case Nil
  then show ?case by simp
next
  case (Cons x xs)
  note IH = Cons.IH and prems = Cons.prems
  show ?case
  proof (cases "P x")
    case False
    with prems have "filter P xs = pre @ b # post" by simp
    from IH [OF this] obtain pre' post'
      where "xs = pre' @ b # post'" "filter P pre' = pre" "filter P post' = post" "P b" by blast
    with False have "x # xs = (x # pre') @ b # post' \<and> filter P (x # pre') = pre
        \<and> filter P post' = post \<and> P b" by simp
    then show ?thesis by blast
  next
    case True
    show ?thesis
    proof (cases pre)
      case Nil
      with True prems have "x = b" "filter P xs = post" by simp_all
      with True have "x # xs = [] @ b # xs \<and> filter P [] = [] \<and> filter P xs = post \<and> P b" by simp
      with Nil show ?thesis by blast
    next
      case (Cons p ps)
      with True prems have px: "p = x" and "filter P xs = ps @ b # post" by simp_all
      from IH [OF this(2)] obtain pre' post'
        where "xs = pre' @ b # post'" "filter P pre' = ps" "filter P post' = post" "P b" by blast
      with True px Cons have "x # xs = (x # pre') @ b # post' \<and> filter P (x # pre') = pre
        \<and> filter P post' = post \<and> P b" by simp
      then show ?thesis by blast
    qed
  qed
qed

subsection \<open>The selection and the capture\<close>

lemma sortByConfidence_Nil: "sortByConfidence xs = [] \<longleftrightarrow> xs = []"
  unfolding sortByConfidence_def by (metis set_sort set_empty)

lemma bestMatch_None:
  "bestMatch thr rs = None \<longleftrightarrow> (\<forall>r\<in>set rs. \<not> (isMatch r \<and> thr \<le> confidence r))"
proof -
  have "bestMatch thr rs = None
          \<longleftrightarrow> sortByConfidence (filter (\<lambda>r. isMatch r \<and> thr \<le> confidence r) rs) = []"
    by (simp add: bestMatch_def split: list.splits)
  then show ?thesis
    by (simp add: sortByConfidence_Nil filter_empty_conv)
qed

lemma bestMatch_Some:
  assumes "bestMatch thr rs = Some b"
  shows "isMatch b \<and> thr \<le> confidence b
         \<and> (\<exists>pre post. rs = pre @ b # post
               \<and> (\<forall>r\<in>set pre. isMatch r \<and> thr \<le> confidence r \<longrightarrow> confidence r < confidence b)
               \<and> (\<forall>r\<in>set post. isMatch r \<and> thr \<le> confidence r \<longrightarrow> confidence r \<le> confidence b))"
proof -
  let ?P = "\<lambda>r. isMatch r \<and> thr \<le> confidence r"
  from assms obtain rest where "sortByConfidence (filter ?P rs) = b # rest"
    by (auto simp: bestMatch_def split: list.splits)
  then have "sort_key (\<lambda>r. - confidence r) (filter ?P rs) = b # rest"
    by (simp add: sortByConfidence_def)
  from sort_key_Cons_split [OF this] obtain pre post
    where fs: "filter ?P rs = pre @ b # post"
      and pre: "\<forall>x\<in>set pre. confidence x < confidence b"
      and post: "\<forall>x\<in>set post. confidence x \<le> confidence b"
    by auto
  from filter_split [OF fs] obtain pre' post'
    where rs: "rs = pre' @ b # post'" and fpre: "filter ?P pre' = pre"
      and fpost: "filter ?P post' = post" and b: "?P b"
    by blast
  have "\<forall>r\<in>set pre'. ?P r \<longrightarrow> confidence r < confidence b"
    using pre fpre by auto
  moreover have "\<forall>r\<in>set post'. ?P r \<longrightarrow> confidence r \<le> confidence b"
    using post fpost by auto
  ultimately show ?thesis using rs b by blast
qed

lemma recognizeFaces_Inr_world:
  "recognizeFaces fbm ds w = (Inr rs, w1) \<Longrightarrow> w1 = w"
  by (auto simp: recognizeFaces_def split: if_splits sum.splits)

lemma attendanceRecords_logActivityW [simp]:
  "attendanceRecords (db (logActivityW level msg w)) = attendanceRecords (db w)"
  by (simp add: logActivityW_def logActivity_def)

lemma db_showToast [simp]: "db (showToast msg type w) = db w"
  by (simp add: showToast_def)

lemma faceEngine_showToast [simp]: "faceEngine (showToast msg type w) = faceEngine w"
  by (simp add: showToast_def)

lemma faceEngine_logActivityW [simp]: "faceEngine (logActivityW level msg w) = faceEngine w"
  by (simp add: logActivityW_def)

lemma recognizeFaces_attendanceRecords:
  "attendanceRecords (db (snd (recognizeFaces fbm ds w))) = attendanceRecords (db w)"
  by (simp add: recognizeFaces_def split: sum.splits)

lemma addAttendanceRecord_records:
  "attendanceRecords (snd (addAttendanceRecord uid c q n d)) =
     (if db_isInitialized d
      then attendanceRecords d
             @ [\<lparr>a_id = nextAttendanceId d, a_userId = uid, a_confidence = c, a_quality = q,
                 a_detectionCount = n\<rparr>]
      else attendanceRecords d)"
  by (simp add: addAttendanceRecord_def logActivity_def Let_def)

lemma addAttendanceRecord_result:
  "fst (addAttendanceRecord uid c q n d) =
     (if db_isInitialized d then Inr (nextAttendanceId d) else Inl notInitialized)"
  by (simp add: addAttendanceRecord_def Let_def)

text \<open>The try block, step by step, once the recognition results are known.\<close>

lemma captureAttendance_try_results:
  assumes "db_isInitialized (db w)"
    and "recognizeFaces fbm (currentDetections s) w = (Inr rs, w1)"
  shows "captureAttendance_try fbm now s w =
     (if rs = [] then
        (Inr False, s, showToast ''No faces could be processed. Please try again.'' ''error'' w)
      else
        case bestMatch (recognitionThreshold (faceEngine w)) rs of
          None \<Rightarrow>
            (Inr False, s,
             showToast ''Face not recognized. Please ensure you are enrolled in the system.''
               ''error'' w)
        | Some b \<Rightarrow>
            (let d2 = snd (addAttendanceRecord (userId b) (confidence b) (quality b) (length rs) (db w))
             in case find (\<lambda>u. Some (user_id u) = userId b) (users (db w)) of
                  None \<Rightarrow> (Inl undefinedProperty, s, w\<lparr>db := d2\<rparr>)
                | Some u \<Rightarrow>
                    (Inr True, s\<lparr>lastRecognitionTime := now\<rparr>,
                     showToast (''Welcome back, '' @ user_name u @ ''! Attendance recorded.'')
                       ''success'' (w\<lparr>db := d2\<rparr>))))"
proof -
  have w1: "w1 = w" using assms(2) by (rule recognizeFaces_Inr_world)
  show ?thesis
  proof (cases "bestMatch (recognitionThreshold (faceEngine w)) rs")
    case None
    with assms w1 show ?thesis
      by (simp add: captureAttendance_try_def getAllUsers_def)
  next
    case (Some b)
    obtain d2 where add:
      "addAttendanceRecord (userId b) (confidence b) (quality b) (length rs) (db w)
         = (Inr (nextAttendanceId (db w)), d2)"
      using assms(1) by (simp add: addAttendanceRecord_def Let_def)
    with Some assms w1 show ?thesis
      by (simp add: captureAttendance_try_def getAllUsers_def Let_def)
  qed
qed

lemmas demo_defs =
  demoDetection_def demoMatcher_def demoWorld_def demoSystem_def newDatabase_def newEngine_def
  newAttendanceSystem_def

lemmas engine_defs =
  recognizeFaces_def sortByConfidence_def calculateFaceQuality_def calculateFaceQuality_try_def
  or0_def parseInt_def parse_digits_def is_digit_def digit_value_def


lemma demo_recognize:
  "recognizeFaces demoMatcher [demoDetection (45 / 100), demoDetection (38 / 100)] demoWorld =
     (Inr [\<lparr>r_detection = demoDetection (38 / 100),
            r_match = \<lparr>match_label = ''1'', distance = 38 / 100\<rparr>,
            confidence = 62 / 100, isMatch = True, userId = Some 1, quality = 86 / 100\<rparr>,
           \<lparr>r_detection = demoDetection (45 / 100),
            r_match = \<lparr>match_label = ''1'', distance = 45 / 100\<rparr>,
            confidence = 55 / 100, isMatch = True, userId = Some 1, quality = 86 / 100\<rparr>],
      demoWorld)"
  by (simp add: engine_defs demo_defs)


lemma captureAttendance_granted:
  "isActive s \<Longrightarrow> currentDetections s \<noteq> []
     \<Longrightarrow> recognitionCooldown s \<le> now - lastRecognitionTime s
     \<Longrightarrow> captureAttendance fbm now s w = captureAttendance_run fbm now s w"
  by (simp add: captureAttendance_def)

lemma captureAttendance_try_state:
  "fst (snd (captureAttendance_try fbm now s w)) =
     (if fst (captureAttendance_try fbm now s w) = Inr True
      then s\<lparr>lastRecognitionTime := now\<rparr> else s)"
  by (simp add: captureAttendance_try_def split: sum.splits prod.splits option.splits)

lemma captureAttendance_try_accept:
  assumes "fst (captureAttendance_try fbm now s w) = Inr True"
  shows "\<exists>rs b. recognizeFaces fbm (currentDetections s) w = (Inr rs, w)
            \<and> bestMatch (recognitionThreshold (faceEngine w)) rs = Some b"
proof -
  obtain res w1 where rec: "recognizeFaces fbm (currentDetections s) w = (res, w1)"
    by (cases "recognizeFaces fbm (currentDetections s) w")
  show ?thesis
  proof (cases res)
    case (Inl error)
    with assms rec show ?thesis
      by (simp add: captureAttendance_try_def split: sum.splits)
  next
    case (Inr rs)
    with rec have w1: "w1 = w" by (simp add: recognizeFaces_Inr_world)
    from assms rec Inr w1
    have "bestMatch (recognitionThreshold (faceEngine w)) rs \<noteq> None"
      by (auto simp: captureAttendance_try_def split: sum.splits if_splits option.splits)
    with rec Inr w1 show ?thesis by auto
  qed
qed

lemma captureAttendance_run_result:
  "fst (captureAttendance_run fbm now s w) \<longleftrightarrow> fst (captureAttendance_try fbm now s w) = Inr True"
  by (cases "captureAttendance_try fbm now s w" rule: prod_cases3)
     (auto simp: captureAttendance_run_def split: sum.splits)

lemma captureAttendance_run_state:
  "fst (snd (captureAttendance_run fbm now s w)) = fst (snd (captureAttendance_try fbm now s w))"
  by (cases "captureAttendance_try fbm now s w" rule: prod_cases3)
     (auto simp: captureAttendance_run_def split: sum.splits)

lemma captureAttendance_run_records:
  "attendanceRecords (db (snd (snd (captureAttendance_run fbm now s w)))) =
     attendanceRecords (db (snd (snd (captureAttendance_try fbm now s w))))"
  by (cases "captureAttendance_try fbm now s w" rule: prod_cases3)
     (auto simp: captureAttendance_run_def split: sum.splits)

lemma captureAttendance_result:
  "fst (captureAttendance fbm now s w) \<longleftrightarrow>
     isActive s \<and> currentDetections s \<noteq> []
     \<and> recognitionCooldown s \<le> now - lastRecognitionTime s
     \<and> fst (captureAttendance_try fbm now s w) = Inr True"
  by (simp add: captureAttendance_def captureAttendance_run_result Let_def)

lemma captureAttendance_state:
  "fst (snd (captureAttendance fbm now s w)) =
     (if fst (captureAttendance fbm now s w) then s\<lparr>lastRecognitionTime := now\<rparr> else s)"
  by (simp add: captureAttendance_def captureAttendance_run_result captureAttendance_run_state
        captureAttendance_try_state Let_def)

text \<open>
  C3, as stated, fails: with an empty gallery \<open>recognizeFaces\<close> returns the empty array,
  so for a frame with one detection there is no result at all, and none that is unknown
  with confidence 0.
\<close>

theorem recognizeFaces_empty_gallery_counterexample:
  "recognizeFaces demoMatcher [demoDetection (2 / 5)]
       (demoWorld\<lparr>faceEngine := newEngine\<lparr>isInitialized := True\<rparr>\<rparr>)
     = (Inr [], demoWorld\<lparr>faceEngine := newEngine\<lparr>isInitialized := True\<rparr>\<rparr>)
   \<and> \<not> (\<exists>rs r. fst (recognizeFaces demoMatcher [demoDetection (2 / 5)]
                         (demoWorld\<lparr>faceEngine := newEngine\<lparr>isInitialized := True\<rparr>\<rparr>)) = Inr rs
                 \<and> r \<in> set rs \<and> \<not> isMatch r \<and> confidence r = 0)"
  by (simp add: recognizeFaces_def demo_defs)

text \<open>
  C3, amended: for every list of detections, when the gallery of labeled descriptors is
  empty and the engine is initialized, \<open>recognizeFaces\<close> returns the empty list of results
  and changes nothing, without consulting the matcher and without raising an error; no
  result is a match and no confidence is reported. \<open>captureAttendance\<close> then rejects the
  capture with the toast "No faces could be processed".
\<close>

theorem recognizeFaces_empty_gallery:
  "isInitialized (faceEngine w) \<and> labeledDescriptors (faceEngine w) = [] \<longrightarrow>
     recognizeFaces fbm ds w = (Inr [], w)
     \<and> (isActive s \<and> currentDetections s \<noteq> []
          \<and> recognitionCooldown s \<le> now - lastRecognitionTime s \<and> db_isInitialized (db w)
        \<longrightarrow> captureAttendance fbm now s w =
              (False, s,
               showToast ''No faces could be processed. Please try again.'' ''error'' w))"
proof (intro impI, elim conjE)
  assume init: "isInitialized (faceEngine w)" and empty: "labeledDescriptors (faceEngine w) = []"
  have rec: "\<And>ds. recognizeFaces fbm ds w = (Inr [], w)"
    using init empty by (simp add: recognizeFaces_def)
  have "captureAttendance fbm now s w =
          (False, s, showToast ''No faces could be processed. Please try again.'' ''error'' w)"
    if "isActive s" "currentDetections s \<noteq> []"
      "recognitionCooldown s \<le> now - lastRecognitionTime s" "db_isInitialized (db w)"
    using that captureAttendance_try_results [OF that(4) rec, where s = s and now = now]
    by (simp add: captureAttendance_granted captureAttendance_run_def)
  with rec show "recognizeFaces fbm ds w = (Inr [], w)
     \<and> (isActive s \<and> currentDetections s \<noteq> []
          \<and> recognitionCooldown s \<le> now - lastRecognitionTime s \<and> db_isInitialized (db w)
        \<longrightarrow> captureAttendance fbm now s w =
              (False, s,
               showToast ''No faces could be processed. Please try again.'' ''error'' w))"
    by blast
qed

theorem recognizeFaces_empty_gallery_witness:
  "recognizeFaces demoMatcher [demoDetection (2 / 5)]
       (demoWorld\<lparr>faceEngine := newEngine\<lparr>isInitialized := True\<rparr>\<rparr>)
     = (Inr [], demoWorld\<lparr>faceEngine := newEngine\<lparr>isInitialized := True\<rparr>\<rparr>)
   \<and> captureAttendance demoMatcher 10000 (demoSystem [demoDetection (2 / 5)] 0)
       (demoWorld\<lparr>faceEngine := newEngine\<lparr>isInitialized := True\<rparr>\<rparr>)
     = (False, demoSystem [demoDetection (2 / 5)] 0,
        showToast ''No faces could be processed. Please try again.'' ''error''
          (demoWorld\<lparr>faceEngine := newEngine\<lparr>isInitialized := True\<rparr>\<rparr>))"
  using recognizeFaces_empty_gallery
          [of "demoWorld\<lparr>faceEngine := newEngine\<lparr>isInitialized := True\<rparr>\<rparr>"
              demoMatcher "[demoDetection (2 / 5)]" "demoSystem [demoDetection (2 / 5)] 0" 10000]
  by (simp add: demo_defs)

text \<open>
  C4: the \<open>bestMatch\<close> selection of \<open>captureAttendance\<close> is empty exactly when no
  recognition result has \<open>isMatch\<close> and a confidence of at least the threshold. Otherwise
  it is a qualifying result such that every qualifying result before it in the list has a
  strictly lower confidence and every qualifying result after it has at most its
  confidence: the highest confidence, the first one on ties. Once the capture has passed
  its guards and recognition has produced the results, an attendance record (identity,
  confidence, quality of the winning detection) is added exactly in that case, and when
  no candidate qualifies the call returns false and records nothing.
\<close>

theorem captureAttendance_bestMatch:
  "(bestMatch thr rs = None \<longleftrightarrow> (\<forall>r\<in>set rs. \<not> (isMatch r \<and> thr \<le> confidence r)))
   \<and> (\<forall>b. bestMatch thr rs = Some b \<longrightarrow>
         isMatch b \<and> thr \<le> confidence b
         \<and> (\<exists>pre post. rs = pre @ b # post
               \<and> (\<forall>r\<in>set pre. isMatch r \<and> thr \<le> confidence r \<longrightarrow> confidence r < confidence b)
               \<and> (\<forall>r\<in>set post. isMatch r \<and> thr \<le> confidence r \<longrightarrow> confidence r \<le> confidence b)))
   \<and> (isActive s \<and> currentDetections s \<noteq> []
        \<and> recognitionCooldown s \<le> now - lastRecognitionTime s \<and> db_isInitialized (db w)
        \<and> recognizeFaces fbm (currentDetections s) w = (Inr rs, w)
        \<and> thr = recognitionThreshold (faceEngine w) \<longrightarrow>
        attendanceRecords (db (snd (snd (captureAttendance fbm now s w)))) =
          (case bestMatch thr rs of
             None \<Rightarrow> attendanceRecords (db w)
           | Some b \<Rightarrow>
               attendanceRecords (db w)
                 @ [\<lparr>a_id = nextAttendanceId (db w), a_userId = userId b,
                     a_confidence = confidence b, a_quality = quality b,
                     a_detectionCount = length rs\<rparr>])
        \<and> fst (captureAttendance fbm now s w) =
            (case bestMatch thr rs of
               None \<Rightarrow> False
             | Some b \<Rightarrow> find (\<lambda>u. Some (user_id u) = userId b) (users (db w)) \<noteq> None))"
proof (intro conjI allI impI)
  show "bestMatch thr rs = None \<longleftrightarrow> (\<forall>r\<in>set rs. \<not> (isMatch r \<and> thr \<le> confidence r))"
    by (rule bestMatch_None)
next
  fix b assume "bestMatch thr rs = Some b"
  from bestMatch_Some [OF this]
  show "isMatch b" and "thr \<le> confidence b"
    and "\<exists>pre post. rs = pre @ b # post
               \<and> (\<forall>r\<in>set pre. isMatch r \<and> thr \<le> confidence r \<longrightarrow> confidence r < confidence b)
               \<and> (\<forall>r\<in>set post. isMatch r \<and> thr \<le> confidence r \<longrightarrow> confidence r \<le> confidence b)"
    by blast+
next
  assume a: "isActive s \<and> currentDetections s \<noteq> []
        \<and> recognitionCooldown s \<le> now - lastRecognitionTime s \<and> db_isInitialized (db w)
        \<and> recognizeFaces fbm (currentDetections s) w = (Inr rs, w)
        \<and> thr = recognitionThreshold (faceEngine w)"
  then have run: "captureAttendance fbm now s w = captureAttendance_run fbm now s w"
    by (simp add: captureAttendance_granted)
  from a have body: "captureAttendance_try fbm now s w =
     (if rs = [] then
        (Inr False, s, showToast ''No faces could be processed. Please try again.'' ''error'' w)
      else
        case bestMatch thr rs of
          None \<Rightarrow>
            (Inr False, s,
             showToast ''Face not recognized. Please ensure you are enrolled in the system.''
               ''error'' w)
        | Some b \<Rightarrow>
            (let d2 = snd (addAttendanceRecord (userId b) (confidence b) (quality b) (length rs) (db w))
             in case find (\<lambda>u. Some (user_id u) = userId b) (users (db w)) of
                  None \<Rightarrow> (Inl undefinedProperty, s, w\<lparr>db := d2\<rparr>)
                | Some u \<Rightarrow>
                    (Inr True, s\<lparr>lastRecognitionTime := now\<rparr>,
                     showToast (''Welcome back, '' @ user_name u @ ''! Attendance recorded.'')
                       ''success'' (w\<lparr>db := d2\<rparr>))))"
    using captureAttendance_try_results [of w fbm s rs w now] by simp
  have nil: "rs = [] \<Longrightarrow> bestMatch thr rs = None"
    by (simp add: bestMatch_None)
  from a have init: "db_isInitialized (db w)" by simp
  show "attendanceRecords (db (snd (snd (captureAttendance fbm now s w)))) =
          (case bestMatch thr rs of
             None \<Rightarrow> attendanceRecords (db w)
           | Some b \<Rightarrow>
               attendanceRecords (db w)
                 @ [\<lparr>a_id = nextAttendanceId (db w), a_userId = userId b,
                     a_confidence = confidence b, a_quality = quality b,
                     a_detectionCount = length rs\<rparr>])"
    unfolding run captureAttendance_run_records body
    using nil init
    by (auto simp: addAttendanceRecord_records Let_def split: option.splits)
  show "fst (captureAttendance fbm now s w) =
            (case bestMatch thr rs of
               None \<Rightarrow> False
             | Some b \<Rightarrow> find (\<lambda>u. Some (user_id u) = userId b) (users (db w)) \<noteq> None)"
    unfolding run captureAttendance_run_result body
    using nil
    by (auto simp: Let_def split: option.splits)
qed


lemma demo_bestMatch:
  "bestMatch (3 / 5)
     [\<lparr>r_detection = demoDetection (38 / 100),
       r_match = \<lparr>match_label = ''1'', distance = 38 / 100\<rparr>,
       confidence = 62 / 100, isMatch = True, userId = Some 1, quality = 86 / 100\<rparr>,
      \<lparr>r_detection = demoDetection (45 / 100),
       r_match = \<lparr>match_label = ''1'', distance = 45 / 100\<rparr>,
       confidence = 55 / 100, isMatch = True, userId = Some 1, quality = 86 / 100\<rparr>]
   = Some \<lparr>r_detection = demoDetection (38 / 100),
       r_match = \<lparr>match_label = ''1'', distance = 38 / 100\<rparr>,
       confidence = 62 / 100, isMatch = True, userId = Some 1, quality = 86 / 100\<rparr>"
  by (simp add: bestMatch_def sortByConfidence_def)

theorem captureAttendance_bestMatch_witness:
  "attendanceRecords (db (snd (snd (captureAttendance demoMatcher 10000
       (demoSystem [demoDetection (45 / 100), demoDetection (38 / 100)] 0) demoWorld))))
     = [\<lparr>a_id = 1, a_userId = Some 1, a_confidence = 62 / 100, a_quality = 86 / 100,
         a_detectionCount = 2\<rparr>]
   \<and> fst (captureAttendance demoMatcher 10000
       (demoSystem [demoDetection (45 / 100), demoDetection (38 / 100)] 0) demoWorld)"
proof -
  have guards: "isActive (demoSystem [demoDetection (45 / 100), demoDetection (38 / 100)] 0)"
    "currentDetections (demoSystem [demoDetection (45 / 100), demoDetection (38 / 100)] 0) \<noteq> []"
    "recognitionCooldown (demoSystem [demoDetection (45 / 100), demoDetection (38 / 100)] 0)
       \<le> 10000 - lastRecognitionTime (demoSystem [demoDetection (45 / 100), demoDetection (38 / 100)] 0)"
    "db_isInitialized (db demoWorld)" "3 / 5 = recognitionThreshold (faceEngine demoWorld)"
    "currentDetections (demoSystem [demoDetection (45 / 100), demoDetection (38 / 100)] 0)
       = [demoDetection (45 / 100), demoDetection (38 / 100)]"
    "attendanceRecords (db demoWorld) = []" "nextAttendanceId (db demoWorld) = 1"
    "users (db demoWorld) = [\<lparr>user_id = 1, user_name = ''Alice'', email = ''alice@example.org'',
        department = ''Engineering'', role = ''Employee'', totalAttendance = 0\<rparr>]"
    by (simp_all add: demo_defs)
  let ?rs = "[\<lparr>r_detection = demoDetection (38 / 100),
                r_match = \<lparr>match_label = ''1'', distance = 38 / 100\<rparr>,
                confidence = 62 / 100, isMatch = True, userId = Some 1, quality = 86 / 100\<rparr>,
               \<lparr>r_detection = demoDetection (45 / 100),
                r_match = \<lparr>match_label = ''1'', distance = 45 / 100\<rparr>,
                confidence = 55 / 100, isMatch = True, userId = Some 1, quality = 86 / 100\<rparr>]"
  let ?s = "demoSystem [demoDetection (45 / 100), demoDetection (38 / 100)] 0"
  have rec: "recognizeFaces demoMatcher (currentDetections ?s) demoWorld = (Inr ?rs, demoWorld)"
    by (simp only: guards demo_recognize)
  from captureAttendance_bestMatch
         [where thr = "3 / 5" and rs = ?rs and s = ?s and now = 10000 and w = demoWorld
            and fbm = demoMatcher]
  have "attendanceRecords (db (snd (snd (captureAttendance demoMatcher 10000 ?s demoWorld)))) =
          (case bestMatch (3 / 5) ?rs of
             None \<Rightarrow> attendanceRecords (db demoWorld)
           | Some b \<Rightarrow>
               attendanceRecords (db demoWorld)
                 @ [\<lparr>a_id = nextAttendanceId (db demoWorld), a_userId = userId b,
                     a_confidence = confidence b, a_quality = quality b,
                     a_detectionCount = length ?rs\<rparr>])
        \<and> fst (captureAttendance demoMatcher 10000 ?s demoWorld) =
            (case bestMatch (3 / 5) ?rs of
               None \<Rightarrow> False
             | Some b \<Rightarrow> find (\<lambda>u. Some (user_id u) = userId b) (users (db demoWorld)) \<noteq> None)"
    using guards(1-5) rec by blast
  from this [unfolded demo_bestMatch] show ?thesis
    by (simp add: guards(7-9))
qed

text \<open>
  C5: in an active system with detections, the capture proceeds to recognition when
  \<open>now - lastRecognitionTime\<close> is at least the cooldown, and otherwise returns false with
  the toast that reports the remaining time, \<open>cooldown - (now - lastRecognitionTime)\<close>
  in milliseconds, rounded up to whole seconds. With the cooldown of 3000 ms an attempt
  2999 ms after the last success is denied with 1 second remaining and an attempt 3000 ms
  after it proceeds. Before any success \<open>lastRecognitionTime\<close> is 0, and the capture
  proceeds at every clock reading of at least the cooldown.
\<close>

theorem captureAttendance_cooldown:
  "isActive s \<and> currentDetections s \<noteq> [] \<longrightarrow>
     (recognitionCooldown s \<le> now - lastRecognitionTime s \<longrightarrow>
        captureAttendance fbm now s w = captureAttendance_run fbm now s w)
   \<and> (now - lastRecognitionTime s < recognitionCooldown s \<longrightarrow>
        captureAttendance fbm now s w =
          (False, s,
           showToast
             (''Please wait ''
                @ show_int \<lceil>real_of_int (recognitionCooldown s - (now - lastRecognitionTime s)) / 1000\<rceil>
                @ '' seconds before next attempt.'')
             ''info'' w))
   \<and> (recognitionCooldown s = 3000 \<and> now = lastRecognitionTime s + 2999 \<longrightarrow>
        captureAttendance fbm now s w =
          (False, s, showToast ''Please wait 1 seconds before next attempt.'' ''info'' w))
   \<and> (recognitionCooldown s = 3000 \<and> now = lastRecognitionTime s + 3000 \<longrightarrow>
        captureAttendance fbm now s w = captureAttendance_run fbm now s w)
   \<and> (lastRecognitionTime s = lastRecognitionTime newAttendanceSystem
        \<and> recognitionCooldown s \<le> now \<longrightarrow>
        captureAttendance fbm now s w = captureAttendance_run fbm now s w)"
proof (intro impI, elim conjE)
  assume active: "isActive s" and dets: "currentDetections s \<noteq> []"
  have one: "show_int \<lceil>(1::real) / 1000\<rceil> = ''1''"
  proof -
    have "\<lceil>(1::real) / 1000\<rceil> = 1" by (rule ceiling_unique) simp_all
    then show ?thesis by (simp add: show_int_def show_nat.simps)
  qed
  have granted: "recognitionCooldown s \<le> now - lastRecognitionTime s \<longrightarrow>
        captureAttendance fbm now s w = captureAttendance_run fbm now s w"
    using active dets by (simp add: captureAttendance_def)
  have denied: "now - lastRecognitionTime s < recognitionCooldown s \<longrightarrow>
        captureAttendance fbm now s w =
          (False, s,
           showToast
             (''Please wait ''
                @ show_int \<lceil>real_of_int (recognitionCooldown s - (now - lastRecognitionTime s)) / 1000\<rceil>
                @ '' seconds before next attempt.'')
             ''info'' w)"
    using active dets by (simp add: captureAttendance_def Let_def)
  have early: "recognitionCooldown s = 3000 \<and> now = lastRecognitionTime s + 2999 \<longrightarrow>
        captureAttendance fbm now s w =
          (False, s, showToast ''Please wait 1 seconds before next attempt.'' ''info'' w)"
    using active dets by (simp add: captureAttendance_def Let_def one)
  have onTime: "recognitionCooldown s = 3000 \<and> now = lastRecognitionTime s + 3000 \<longrightarrow>
        captureAttendance fbm now s w = captureAttendance_run fbm now s w"
    using active dets by (simp add: captureAttendance_def)
  have first: "lastRecognitionTime s = lastRecognitionTime newAttendanceSystem
        \<and> recognitionCooldown s \<le> now \<longrightarrow>
        captureAttendance fbm now s w = captureAttendance_run fbm now s w"
    using active dets by (simp add: captureAttendance_def newAttendanceSystem_def)
  from granted denied early onTime first
  show "(recognitionCooldown s \<le> now - lastRecognitionTime s \<longrightarrow>
        captureAttendance fbm now s w = captureAttendance_run fbm now s w)
   \<and> (now - lastRecognitionTime s < recognitionCooldown s \<longrightarrow>
        captureAttendance fbm now s w =
          (False, s,
           showToast
             (''Please wait ''
                @ show_int \<lceil>real_of_int (recognitionCooldown s - (now - lastRecognitionTime s)) / 1000\<rceil>
                @ '' seconds before next attempt.'')
             ''info'' w))
   \<and> (recognitionCooldown s = 3000 \<and> now = lastRecognitionTime s + 2999 \<longrightarrow>
        captureAttendance fbm now s w =
          (False, s, showToast ''Please wait 1 seconds before next attempt.'' ''info'' w))
   \<and> (recognitionCooldown s = 3000 \<and> now = lastRecognitionTime s + 3000 \<longrightarrow>
        captureAttendance fbm now s w = captureAttendance_run fbm now s w)
   \<and> (lastRecognitionTime s = lastRecognitionTime newAttendanceSystem
        \<and> recognitionCooldown s \<le> now \<longrightarrow>
        captureAttendance fbm now s w = captureAttendance_run fbm now s w)"
    by blast
qed


theorem captureAttendance_cooldown_witness:
  "captureAttendance demoMatcher 52999 (demoSystem [demoDetection (38 / 100)] 50000) demoWorld
     = (False, demoSystem [demoDetection (38 / 100)] 50000,
        showToast ''Please wait 1 seconds before next attempt.'' ''info'' demoWorld)
   \<and> captureAttendance demoMatcher 53000 (demoSystem [demoDetection (38 / 100)] 50000) demoWorld
     = captureAttendance_run demoMatcher 53000 (demoSystem [demoDetection (38 / 100)] 50000)
         demoWorld
   \<and> captureAttendance demoMatcher 53000 (demoSystem [demoDetection (38 / 100)] 0) demoWorld
     = captureAttendance_run demoMatcher 53000 (demoSystem [demoDetection (38 / 100)] 0) demoWorld"
proof -
  have guards: "isActive (demoSystem ds t)"
    "currentDetections (demoSystem ds t) = ds"
    "recognitionCooldown (demoSystem ds t) = 3000"
    "lastRecognitionTime (demoSystem ds t) = t"
    "lastRecognitionTime newAttendanceSystem = 0" for ds t
    by (simp_all add: demo_defs)
  have "\<lceil>(1::real) / 1000\<rceil> = 1" by (rule ceiling_unique) simp_all
  then have one: "show_int \<lceil>(1::real) / 1000\<rceil> = ''1''"
    by (simp add: show_int_def show_nat.simps)
  show ?thesis
    using captureAttendance_cooldown
            [where s = "demoSystem [demoDetection (38 / 100)] 50000" and now = 52999
               and fbm = demoMatcher and w = demoWorld]
          captureAttendance_cooldown
            [where s = "demoSystem [demoDetection (38 / 100)] 50000" and now = 53000
               and fbm = demoMatcher and w = demoWorld]
          captureAttendance_cooldown
            [where s = "demoSystem [demoDetection (38 / 100)] 0" and now = 53000
               and fbm = demoMatcher and w = demoWorld]
    by (simp add: guards one)
qed

text \<open>
  C6: \<open>captureAttendance\<close> changes nothing of the system but \<open>lastRecognitionTime\<close>,
  and sets it (to the \<open>now\<close> of the call) exactly when it returns true, which happens
  only after the selection has accepted a qualifying candidate; when it returns false,
  whether rejected, refused or failed, the timestamp is the one before the call.
\<close>

theorem captureAttendance_lastRecognitionTime:
  "fst (snd (captureAttendance fbm now s w)) =
     (if fst (captureAttendance fbm now s w) then s\<lparr>lastRecognitionTime := now\<rparr> else s)
   \<and> (\<not> fst (captureAttendance fbm now s w) \<longrightarrow>
        lastRecognitionTime (fst (snd (captureAttendance fbm now s w))) = lastRecognitionTime s)
   \<and> (fst (captureAttendance fbm now s w) \<longrightarrow>
        lastRecognitionTime (fst (snd (captureAttendance fbm now s w))) = now
        \<and> (\<exists>rs b. recognizeFaces fbm (currentDetections s) w = (Inr rs, w)
              \<and> bestMatch (recognitionThreshold (faceEngine w)) rs = Some b
              \<and> isMatch b \<and> recognitionThreshold (faceEngine w) \<le> confidence b))"
proof (intro conjI impI)
  show state: "fst (snd (captureAttendance fbm now s w)) =
     (if fst (captureAttendance fbm now s w) then s\<lparr>lastRecognitionTime := now\<rparr> else s)"
    by (rule captureAttendance_state)
  show "lastRecognitionTime (fst (snd (captureAttendance fbm now s w))) = lastRecognitionTime s"
    if "\<not> fst (captureAttendance fbm now s w)"
    using that state by simp
  show "lastRecognitionTime (fst (snd (captureAttendance fbm now s w))) = now"
    if "fst (captureAttendance fbm now s w)"
    using that state by simp
  show "\<exists>rs b. recognizeFaces fbm (currentDetections s) w = (Inr rs, w)
              \<and> bestMatch (recognitionThreshold (faceEngine w)) rs = Some b
              \<and> isMatch b \<and> recognitionThreshold (faceEngine w) \<le> confidence b"
    if "fst (captureAttendance fbm now s w)"
  proof -
    from that have "fst (captureAttendance_try fbm now s w) = Inr True"
      by (simp add: captureAttendance_result)
    from captureAttendance_try_accept [OF this] obtain rs b
      where "recognizeFaces fbm (currentDetections s) w = (Inr rs, w)"
        and "bestMatch (recognitionThreshold (faceEngine w)) rs = Some b"
      by blast
    with bestMatch_Some [of "recognitionThreshold (faceEngine w)" rs b] show ?thesis
      by blast
  qed
qed

theorem captureAttendance_lastRecognitionTime_witness:
  "\<not> fst (captureAttendance demoMatcher 60000 (demoSystem [demoDetection (9 / 10)] 50000) demoWorld)
   \<and> lastRecognitionTime (fst (snd (captureAttendance demoMatcher 60000
         (demoSystem [demoDetection (9 / 10)] 50000) demoWorld))) = 50000
   \<and> fst (captureAttendance demoMatcher 60000 (demoSystem [demoDetection (38 / 100)] 50000) demoWorld)
   \<and> lastRecognitionTime (fst (snd (captureAttendance demoMatcher 60000
         (demoSystem [demoDetection (38 / 100)] 50000) demoWorld))) = 60000"
proof -
  have reject:
    "\<not> fst (captureAttendance demoMatcher 60000 (demoSystem [demoDetection (9 / 10)] 50000) demoWorld)"
    by (simp add: captureAttendance_def captureAttendance_run_def captureAttendance_try_def
          getAllUsers_def bestMatch_def engine_defs demo_defs)
  have accept:
    "fst (captureAttendance demoMatcher 60000 (demoSystem [demoDetection (38 / 100)] 50000) demoWorld)"
    by (simp add: captureAttendance_def captureAttendance_run_def captureAttendance_try_def
          getAllUsers_def bestMatch_def addAttendanceRecord_def engine_defs demo_defs)
  have last: "lastRecognitionTime (demoSystem ds 50000) = 50000" for ds
    by (simp add: demo_defs)
  show ?thesis
    using captureAttendance_lastRecognitionTime
            [of demoMatcher 60000 "demoSystem [demoDetection (9 / 10)] 50000" demoWorld]
          captureAttendance_lastRecognitionTime
            [of demoMatcher 60000 "demoSystem [demoDetection (38 / 100)] 50000" demoWorld]
          reject accept last
    by simp
qed

section \<open>Properties of the enrollment\<close>

lemma captureEnrollmentSample_cases:
  "captureEnrollmentSample raw um w = (res, um', w') \<Longrightarrow>
     (\<not> res \<and> um' = um)
     \<or> (res \<and> isEnrolling um \<and> length (enrollmentSamples um) < requiredSamples um
          \<and> (\<exists>sample. um' = um\<lparr>enrollmentSamples := enrollmentSamples um @ [sample]\<rparr>))"
  by (auto simp: captureEnrollmentSample_def Let_def
           split: if_splits prod.splits sum.splits list.splits)

lemma captureEnrollmentSample_full:
  "requiredSamples um \<le> length (enrollmentSamples um) \<Longrightarrow>
     captureEnrollmentSample raw um w = (False, um, w)"
  by (simp add: captureEnrollmentSample_def)

lemma startEnrollment_cases:
  "startEnrollment formValid camera um w = (res, um', w') \<Longrightarrow>
     um' = um \<or> um' = um\<lparr>isEnrolling := True, enrollmentSamples := []\<rparr>"
  by (auto simp: startEnrollment_def split: if_splits option.splits)

lemma completeEnrollment_try_cases:
  "completeEnrollment_try form um w = (res, um', w') \<Longrightarrow> um' = um \<or> um' = stopEnrollment um"
  by (auto simp: completeEnrollment_try_def Let_def
           split: if_splits option.splits sum.splits prod.splits)

lemma completeEnrollment_cases:
  "completeEnrollment form um w = (res, um', w') \<Longrightarrow> um' = um \<or> um' = stopEnrollment um"
  by (auto simp: completeEnrollment_def split: if_splits option.splits prod.splits
           dest: completeEnrollment_try_cases)

lemma enrollmentStep_bounded:
  assumes "length (enrollmentSamples um) \<le> requiredSamples um"
  shows "length (enrollmentSamples (fst (enrollmentStep op (um, w))))
           \<le> requiredSamples (fst (enrollmentStep op (um, w)))
         \<and> requiredSamples (fst (enrollmentStep op (um, w))) = requiredSamples um"
proof (cases op)
  case (StartEnrollment formValid camera)
  obtain res um' w' where r: "startEnrollment formValid camera um w = (res, um', w')"
    by (cases "startEnrollment formValid camera um w" rule: prod_cases3)
  from startEnrollment_cases [OF r] assms show ?thesis
    using StartEnrollment r by auto
next
  case (CaptureEnrollmentSample raw)
  obtain res um' w' where r: "captureEnrollmentSample raw um w = (res, um', w')"
    by (cases "captureEnrollmentSample raw um w" rule: prod_cases3)
  from captureEnrollmentSample_cases [OF r] assms show ?thesis
    using CaptureEnrollmentSample r by auto
next
  case (CompleteEnrollment form)
  obtain res um' w' where r: "completeEnrollment form um w = (res, um', w')"
    by (cases "completeEnrollment form um w" rule: prod_cases3)
  from completeEnrollment_cases [OF r] assms show ?thesis
    using CompleteEnrollment r by (auto simp: stopEnrollment_def)
next
  case StopEnrollment
  with assms show ?thesis by (simp add: stopEnrollment_def)
qed

lemma runEnrollment_bounded:
  "length (enrollmentSamples (fst st)) \<le> requiredSamples (fst st) \<Longrightarrow>
     length (enrollmentSamples (fst (runEnrollment ops st)))
       \<le> requiredSamples (fst (runEnrollment ops st))
     \<and> requiredSamples (fst (runEnrollment ops st)) = requiredSamples (fst st)"
proof (induction ops arbitrary: st)
  case Nil
  then show ?case by (simp add: runEnrollment_def)
next
  case (Cons op ops)
  obtain um w where st: "st = (um, w)" by (cases st)
  from Cons.prems st enrollmentStep_bounded [of um op w]
  have step: "length (enrollmentSamples (fst (enrollmentStep op st)))
                \<le> requiredSamples (fst (enrollmentStep op st))"
    and req: "requiredSamples (fst (enrollmentStep op st)) = requiredSamples (fst st)"
    by simp_all
  from Cons.IH [OF step] req show ?case
    by (simp add: runEnrollment_def)
qed


lemmas enrollment_defs =
  captureEnrollmentSample_def detectFaces_def validateEnrollmentQuality_def
  calculateFaceQuality_def calculateFaceQuality_try_def or0_def startEnrollment_def
  showToast_def show_nat.simps


lemma demo_capture:
  "n < 5 \<Longrightarrow> isInitialized (faceEngine w) \<Longrightarrow> qualityThreshold (faceEngine w) = 7 / 10 \<Longrightarrow>
   fst (enrollmentStep (CaptureEnrollmentSample (Inr [demoDetection (2 / 5)])) (demoEnrollment n, w))
     = demoEnrollment (Suc n)"
  by (simp add: enrollment_defs demoEnrollment_def demoDetection_def newUserManagement_def
        replicate_append_same)


lemma demo_full_session:
  "fst (runEnrollment
         [StartEnrollment True None,
          CaptureEnrollmentSample (Inr [demoDetection (2 / 5)]),
          CaptureEnrollmentSample (Inr [demoDetection (2 / 5)]),
          CaptureEnrollmentSample (Inr [demoDetection (2 / 5)]),
          CaptureEnrollmentSample (Inr [demoDetection (2 / 5)]),
          CaptureEnrollmentSample (Inr [demoDetection (2 / 5)])]
         (newUserManagement, demoWorld)) = demoEnrollment 5"
  by (simp add: runEnrollment_def enrollment_defs demo_defs demoEnrollment_def
        newUserManagement_def eval_nat_numeral)

text \<open>
  C8, as stated, fails: in a session that has its five samples (reached by starting the
  enrollment and capturing five good samples), a capture with zero detections returns
  false without any toast; the detector is not even consulted.
\<close>

theorem captureEnrollmentSample_no_face_counterexample:
  "fst (runEnrollment
         [StartEnrollment True None,
          CaptureEnrollmentSample (Inr [demoDetection (2 / 5)]),
          CaptureEnrollmentSample (Inr [demoDetection (2 / 5)]),
          CaptureEnrollmentSample (Inr [demoDetection (2 / 5)]),
          CaptureEnrollmentSample (Inr [demoDetection (2 / 5)]),
          CaptureEnrollmentSample (Inr [demoDetection (2 / 5)])]
         (newUserManagement, demoWorld)) = demoEnrollment 5
   \<and> captureEnrollmentSample (Inr []) (demoEnrollment 5) demoWorld
       = (False, demoEnrollment 5, demoWorld)
   \<and> toasts (snd (snd (captureEnrollmentSample (Inr []) (demoEnrollment 5) demoWorld))) = []"
  by (simp add: demo_full_session)
     (simp add: captureEnrollmentSample_def demoEnrollment_def newUserManagement_def demoWorld_def)

text \<open>
  C8, amended: in every enrollment state a capture with zero detections returns false and
  leaves the sample list unchanged. While the session is collecting (enrolling, with
  fewer samples than required, engine initialized) it is rejected with the toast
  "No face detected. Please position yourself properly."; when the session is not
  enrolling or already has the required samples it is rejected silently.
\<close>

theorem captureEnrollmentSample_no_face:
  "\<not> fst (captureEnrollmentSample (Inr []) um w)
   \<and> fst (snd (captureEnrollmentSample (Inr []) um w)) = um
   \<and> (isEnrolling um \<and> length (enrollmentSamples um) < requiredSamples um
        \<and> isInitialized (faceEngine w) \<longrightarrow>
        snd (snd (captureEnrollmentSample (Inr []) um w)) =
          showToast ''No face detected. Please position yourself properly.'' ''warning'' w)
   \<and> (\<not> isEnrolling um \<or> requiredSamples um \<le> length (enrollmentSamples um) \<longrightarrow>
        snd (snd (captureEnrollmentSample (Inr []) um w)) = w)"
  by (auto simp: captureEnrollmentSample_def detectFaces_def or0_def)

theorem captureEnrollmentSample_no_face_witness:
  "captureEnrollmentSample (Inr []) (demoEnrollment 2) demoWorld
     = (False, demoEnrollment 2,
        showToast ''No face detected. Please position yourself properly.'' ''warning'' demoWorld)
   \<and> captureEnrollmentSample (Inr []) (demoEnrollment 5) demoWorld
     = (False, demoEnrollment 5, demoWorld)"
proof -
  have enrolling: "isEnrolling (demoEnrollment n)"
    "length (enrollmentSamples (demoEnrollment n)) = n"
    "requiredSamples (demoEnrollment n) = 5" for n
    by (simp_all add: demoEnrollment_def newUserManagement_def)
  have engine: "isInitialized (faceEngine demoWorld)"
    by (simp add: demoWorld_def newEngine_def)
  show ?thesis
    using captureEnrollmentSample_no_face [of "demoEnrollment 2" demoWorld]
          captureEnrollmentSample_no_face [of "demoEnrollment 5" demoWorld]
    by (simp add: enrolling engine prod_eq_iff)
qed

text \<open>
  C9: with fewer samples than required, \<open>completeEnrollment\<close> returns false, reports the
  shortfall in the warning "Need n more samples." (n = required - count; 1 for four samples
  of five), and changes nothing else: no user, no face descriptor and no gallery entry is
  created.
\<close>

theorem completeEnrollment_insufficient:
  "length (enrollmentSamples um) < requiredSamples um \<longrightarrow>
     completeEnrollment form um w =
       (False, um,
        showToast
          (''Need '' @ show_nat (requiredSamples um - length (enrollmentSamples um))
             @ '' more samples.'')
          ''warning'' w)
     \<and> users (db (snd (snd (completeEnrollment form um w)))) = users (db w)
     \<and> faceDescriptors (db (snd (snd (completeEnrollment form um w)))) = faceDescriptors (db w)
     \<and> labeledDescriptors (faceEngine (snd (snd (completeEnrollment form um w))))
         = labeledDescriptors (faceEngine w)
     \<and> (requiredSamples um = 5 \<and> length (enrollmentSamples um) = 4 \<longrightarrow>
          toasts (snd (snd (completeEnrollment form um w)))
            = toasts w @ [(''Need 1 more samples.'', ''warning'')])"
  by (simp add: completeEnrollment_def showToast_def show_nat.simps)

theorem completeEnrollment_insufficient_witness:
  "completeEnrollment
       \<lparr>ud_name = ''Bob'', ud_email = ''bob@example.org'', ud_department = ''HR'', ud_role = []\<rparr>
       (demoEnrollment 4) demoWorld
     = (False, demoEnrollment 4, showToast ''Need 1 more samples.'' ''warning'' demoWorld)
   \<and> users (db (snd (snd (completeEnrollment
       \<lparr>ud_name = ''Bob'', ud_email = ''bob@example.org'', ud_department = ''HR'', ud_role = []\<rparr>
       (demoEnrollment 4) demoWorld)))) = users (db demoWorld)"
proof -
  have enrolling: "length (enrollmentSamples (demoEnrollment 4)) = 4"
    "requiredSamples (demoEnrollment 4) = 5"
    by (simp_all add: demoEnrollment_def newUserManagement_def)
  show ?thesis
    using completeEnrollment_insufficient
            [of "demoEnrollment 4"
                "\<lparr>ud_name = ''Bob'', ud_email = ''bob@example.org'', ud_department = ''HR'',
                  ud_role = []\<rparr>" demoWorld]
    by (simp add: enrolling show_nat.simps)
qed

subsection \<open>The sample count when captures run alone\<close>

text \<open>
  When no capture overlaps another operation, the guard holds the list at
  \<open>requiredSamples\<close>: at the bound \<open>captureEnrollmentSample\<close> returns false and changes
  nothing, every operation of \<open>enrollmentStep\<close> preserves
  \<open>length enrollmentSamples \<le> requiredSamples\<close>, and a sequence of such operations on a
  new \<open>UserManagement\<close> never holds more than 5 samples.
\<close>

lemma enrollmentSamples_bounded_alone:
  "(requiredSamples um \<le> length (enrollmentSamples um) \<longrightarrow>
      captureEnrollmentSample raw um w = (False, um, w))
   \<and> (length (enrollmentSamples um) \<le> requiredSamples um \<longrightarrow>
        length (enrollmentSamples (fst (enrollmentStep op (um, w))))
          \<le> requiredSamples (fst (enrollmentStep op (um, w)))
        \<and> requiredSamples (fst (enrollmentStep op (um, w))) = requiredSamples um)
   \<and> length (enrollmentSamples (fst (runEnrollment ops (newUserManagement, w0)))) \<le> 5"
proof (intro conjI impI)
  assume "requiredSamples um \<le> length (enrollmentSamples um)"
  then show "captureEnrollmentSample raw um w = (False, um, w)"
    by (rule captureEnrollmentSample_full)
next
  assume "length (enrollmentSamples um) \<le> requiredSamples um"
  from enrollmentStep_bounded [OF this, of op w]
  show "length (enrollmentSamples (fst (enrollmentStep op (um, w))))
          \<le> requiredSamples (fst (enrollmentStep op (um, w)))"
    and "requiredSamples (fst (enrollmentStep op (um, w))) = requiredSamples um"
    by simp_all
next
  have "length (enrollmentSamples (fst (newUserManagement, w0)))
          \<le> requiredSamples (fst (newUserManagement, w0))"
    by (simp add: newUserManagement_def)
  from runEnrollment_bounded [OF this, of ops]
  show "length (enrollmentSamples (fst (runEnrollment ops (newUserManagement, w0)))) \<le> 5"
    by (simp add: newUserManagement_def)
qed

subsection \<open>The sample count when captures overlap\<close>

text \<open>
  The parts of \<open>captureEnrollmentSample\<close>, run one after the other with nothing in
  between, are the call that runs alone.
\<close>

lemma detectFaces_parts:
  "detectFaces raw minQuality w = detectFaces_answer (isInitialized (faceEngine w)) raw minQuality w"
  by (simp add: detectFaces_def detectFaces_answer_def)

lemma captureEnrollmentSample_parts:
  "captureEnrollmentSample raw um w =
     (case captureEnrollmentSample_begin um w of
        None \<Rightarrow> (False, um, w)
      | Some call \<Rightarrow>
          (case call of
             AwaitingDetection initialized \<Rightarrow>
               (case captureEnrollmentSample_detected initialized raw w of
                  (Inl result, w1) \<Rightarrow> (result, um, w1)
                | (Inr (AwaitingDetection again), w1) \<Rightarrow> (False, um, w1)
                | (Inr (AwaitingValidation d validated), w1) \<Rightarrow>
                    captureEnrollmentSample_validated d validated um w1)
           | AwaitingValidation d validated \<Rightarrow> (False, um, w)))"
  by (simp add: captureEnrollmentSample_def captureEnrollmentSample_begin_def
        captureEnrollmentSample_detected_def captureEnrollmentSample_validated_def
        detectFaces_parts Let_def
      split: prod.splits sum.splits list.splits)

lemmas capture_parts_defs =
  captureEnrollmentSample_begin_def captureEnrollmentSample_detected_def
  captureEnrollmentSample_validated_def detectFaces_answer_def dropCall_def

text \<open>
  C10 fails on the code. In a session with four samples, two clicks on the capture button
  in quick succession start two calls; both evaluate the guard while the list has four
  samples, and each pushes its sample after its awaits without looking at the length
  again. The list ends with 6 samples for \<open>requiredSamples = 5\<close>, and the page reports
  "Sample 6/5 captured successfully!".
\<close>

theorem captureEnrollmentSample_overlapping:
  "length (enrollmentSamples (fst (runEvents
       [Alone (StartEnrollment True None),
        Alone (CaptureEnrollmentSample (Inr [demoDetection (2 / 5)])),
        Alone (CaptureEnrollmentSample (Inr [demoDetection (2 / 5)])),
        Alone (CaptureEnrollmentSample (Inr [demoDetection (2 / 5)])),
        Alone (CaptureEnrollmentSample (Inr [demoDetection (2 / 5)])),
        CaptureBegin, CaptureBegin,
        CaptureDetected 0 (Inr [demoDetection (2 / 5)]), CaptureValidated 0,
        CaptureDetected 0 (Inr [demoDetection (2 / 5)]), CaptureValidated 0]
       (newUserManagement, demoWorld, [])))) = 6
   \<and> requiredSamples (fst (runEvents
       [Alone (StartEnrollment True None),
        Alone (CaptureEnrollmentSample (Inr [demoDetection (2 / 5)])),
        Alone (CaptureEnrollmentSample (Inr [demoDetection (2 / 5)])),
        Alone (CaptureEnrollmentSample (Inr [demoDetection (2 / 5)])),
        Alone (CaptureEnrollmentSample (Inr [demoDetection (2 / 5)])),
        CaptureBegin, CaptureBegin,
        CaptureDetected 0 (Inr [demoDetection (2 / 5)]), CaptureValidated 0,
        CaptureDetected 0 (Inr [demoDetection (2 / 5)]), CaptureValidated 0]
       (newUserManagement, demoWorld, []))) = 5
   \<and> last (toasts (fst (snd (runEvents
       [Alone (StartEnrollment True None),
        Alone (CaptureEnrollmentSample (Inr [demoDetection (2 / 5)])),
        Alone (CaptureEnrollmentSample (Inr [demoDetection (2 / 5)])),
        Alone (CaptureEnrollmentSample (Inr [demoDetection (2 / 5)])),
        Alone (CaptureEnrollmentSample (Inr [demoDetection (2 / 5)])),
        CaptureBegin, CaptureBegin,
        CaptureDetected 0 (Inr [demoDetection (2 / 5)]), CaptureValidated 0,
        CaptureDetected 0 (Inr [demoDetection (2 / 5)]), CaptureValidated 0]
       (newUserManagement, demoWorld, [])))))
     = (''Sample 6/5 captured successfully!'', ''success'')"
  by (simp add: runEvents_def capture_parts_defs enrollment_defs demo_defs newUserManagement_def)

section \<open>Properties of the retry budget\<close>

subsection \<open>Calls that run alone\<close>

lemma toast_fields [simp]:
  "recognitionAttempts (toast msg type st) = recognitionAttempts st"
  "capturedImage (toast msg type st) = capturedImage st"
  "userDatabase (toast msg type st) = userDatabase st"
  "videoStream (toast msg type st) = videoStream st"
  "isScanning (toast msg type st) = isScanning st"
  "shown (toast msg type st) = shown st @ [(msg, type)]"
  "processing (toast msg type st) = processing st"
  by (simp_all add: toast_def)

lemmas checkAttendance_defs =
  checkAttendance_def checkAttendance_begin_def checkAttendance_resume_def

lemma picked_index:
  assumes "0 \<le> r" and "r < 1" and "xs \<noteq> []"
  shows "0 \<le> \<lfloor>r * real (length xs)\<rfloor> \<and> \<lfloor>r * real (length xs)\<rfloor> < int (length xs)"
proof -
  have pos: "0 < real (length xs)" using assms(3) by simp
  have "0 \<le> r * real (length xs)" using assms(1) by simp
  then have lower: "0 \<le> \<lfloor>r * real (length xs)\<rfloor>" by simp
  have "r * real (length xs) < 1 * real (length xs)"
    using assms(2) pos by (rule mult_strict_right_mono)
  then have "r * real (length xs) < real_of_int (int (length xs))" by simp
  then have "\<lfloor>r * real (length xs)\<rfloor> < int (length xs)" by (simp only: floor_less_iff)
  with lower show ?thesis by simp
qed

lemma checkAttendance_no_capture:
  "capturedImage st = None \<Longrightarrow>
     checkAttendance r1 r2 st = toast ''Please capture an image first'' ''warning'' st"
  by (simp add: checkAttendance_defs)

lemma checkAttendance_announces:
  "capturedImage st \<noteq> None \<Longrightarrow>
     \<exists>rest. shown (checkAttendance r1 r2 st) =
       shown st
         @ (''Processing face recognition... (Attempt '' @ show_int (recognitionAttempts st + 1)
              @ ''/'' @ show_int MAX_ATTEMPTS @ '')'', ''info'') # rest"
  by (auto simp: checkAttendance_defs Let_def)

lemma checkAttendance_failed_retry:
  assumes "capturedImage st \<noteq> None" and "\<not> r1 < successRate (recognitionAttempts st + 1)"
    and "recognitionAttempts st + 1 < MAX_ATTEMPTS"
  shows "recognitionAttempts (checkAttendance r1 r2 st) = recognitionAttempts st + 1"
    and "capturedImage (checkAttendance r1 r2 st) = capturedImage st"
    and "userDatabase (checkAttendance r1 r2 st) = userDatabase st"
  using assms by (auto simp: checkAttendance_defs Let_def)

lemma checkAttendance_failed_exhausted:
  assumes "capturedImage st \<noteq> None" and "\<not> r1 < successRate (recognitionAttempts st + 1)"
    and "MAX_ATTEMPTS \<le> recognitionAttempts st + 1"
  shows "recognitionAttempts (checkAttendance r1 r2 st) = 0"
    and "capturedImage (checkAttendance r1 r2 st) = None"
    and "userDatabase (checkAttendance r1 r2 st) = userDatabase st"
    and "last (shown (checkAttendance r1 r2 st)) =
           (''Maximum attempts ('' @ show_int MAX_ATTEMPTS @ '') reached. Please try again later.'',
            ''error'')"
  using assms by (auto simp: checkAttendance_defs Let_def)

lemma checkAttendance_recognized:
  assumes "capturedImage st \<noteq> None" and "r1 < successRate (recognitionAttempts st + 1)"
    and "0 \<le> r2" and "r2 < 1" and "userDatabase st \<noteq> []"
  shows "recognitionAttempts (checkAttendance r1 r2 st) = 0"
    and "capturedImage (checkAttendance r1 r2 st) = None"
    and "length (userDatabase (checkAttendance r1 r2 st)) = length (userDatabase st)"
  using assms picked_index [OF assms(3,4,5)]
  by (auto simp: checkAttendance_defs Let_def)

lemma checkAttendance_invariant:
  assumes "budgetInvariant st" and "0 \<le> r2" and "r2 < 1"
  shows "budgetInvariant (checkAttendance r1 r2 st)"
proof (cases "capturedImage st")
  case None
  with assms(1) show ?thesis
    by (simp add: checkAttendance_no_capture budgetInvariant_def)
next
  case (Some dataUrl)
  then have cap: "capturedImage st \<noteq> None" by simp
  from assms(1) have db: "userDatabase st \<noteq> []" by (simp add: budgetInvariant_def)
  show ?thesis
  proof (cases "r1 < successRate (recognitionAttempts st + 1)")
    case True
    from checkAttendance_recognized [OF cap True assms(2,3) db] db show ?thesis
      by (auto simp: budgetInvariant_def MAX_ATTEMPTS_def)
  next
    case False
    show ?thesis
    proof (cases "recognitionAttempts st + 1 < MAX_ATTEMPTS")
      case True
      from checkAttendance_failed_retry [OF cap False True] assms(1) True show ?thesis
        by (simp add: budgetInvariant_def)
    next
      case False
      then have "MAX_ATTEMPTS \<le> recognitionAttempts st + 1" by simp
      from checkAttendance_failed_exhausted(1,3) [OF cap \<open>\<not> r1 < successRate (recognitionAttempts st + 1)\<close> this]
        assms(1)
      show ?thesis by (simp add: budgetInvariant_def MAX_ATTEMPTS_def)
    qed
  qed
qed

lemma scriptStep_invariant:
  "budgetInvariant st \<Longrightarrow> validEvent e \<Longrightarrow> aloneEvent e \<Longrightarrow> budgetInvariant (scriptStep e st)"
proof (cases e)
  case (CheckAttendance r1 r2)
  assume "budgetInvariant st" "validEvent e"
  with CheckAttendance show ?thesis by (simp add: checkAttendance_invariant)
qed (auto simp: budgetInvariant_def MAX_ATTEMPTS_def startCamera_def stopCamera_def
       captureImage_def startCountdown_def cancelScanning_def countdownElapsed_def
       performCapture_def)

lemma runScript_invariant:
  "budgetInvariant st \<Longrightarrow> \<forall>e\<in>set events. validEvent e \<and> aloneEvent e
     \<Longrightarrow> budgetInvariant (runScript events st)"
proof (induction events arbitrary: st)
  case Nil
  then show ?case by (simp add: runScript_def)
next
  case (Cons e events)
  from Cons.prems have "budgetInvariant (scriptStep e st)"
    by (simp add: scriptStep_invariant)
  from Cons.IH [OF this] Cons.prems(2) show ?case
    by (simp add: runScript_def)
qed

lemma initialScript_invariant: "budgetInvariant initialScript"
  by (simp add: budgetInvariant_def initialScript_def MAX_ATTEMPTS_def)


lemma show_MAX_ATTEMPTS: "show_int MAX_ATTEMPTS = ''3''" "show_int 3 = ''3''"
  by (simp_all add: MAX_ATTEMPTS_def show_int_def show_nat.simps)

text \<open>
  What the retry logic does when no call of \<^verbatim>\<open>checkAttendance\<close> overlaps another handler:
  with a captured image the attempt is counted and announced first, whatever the outcome;
  a failed attempt keeps the image and the count while the count is below 3, and at 3 it
  reports that the maximum is reached, drops the image and resets the count; a recognized
  attempt drops the image and resets the count; without an image no attempt is made. In
  such runs the count stays below 3 between handlers, and three failures in a row after a
  fresh capture end the cycle exactly at the third.
\<close>

lemma checkAttendance_alone_budget:
  "(capturedImage st \<noteq> None \<longrightarrow>
      (\<exists>rest. shown (checkAttendance r1 r2 st) =
         shown st
           @ (''Processing face recognition... (Attempt '' @ show_int (recognitionAttempts st + 1)
                @ ''/3)'', ''info'') # rest))
   \<and> (capturedImage st \<noteq> None \<and> \<not> r1 < successRate (recognitionAttempts st + 1) \<longrightarrow>
        (if recognitionAttempts st + 1 < 3
         then recognitionAttempts (checkAttendance r1 r2 st) = recognitionAttempts st + 1
              \<and> capturedImage (checkAttendance r1 r2 st) = capturedImage st
         else recognitionAttempts (checkAttendance r1 r2 st) = 0
              \<and> capturedImage (checkAttendance r1 r2 st) = None
              \<and> last (shown (checkAttendance r1 r2 st)) =
                    (''Maximum attempts (3) reached. Please try again later.'', ''error'')))
   \<and> (capturedImage st \<noteq> None \<and> r1 < successRate (recognitionAttempts st + 1)
        \<and> 0 \<le> r2 \<and> r2 < 1 \<and> userDatabase st \<noteq> [] \<longrightarrow>
        recognitionAttempts (checkAttendance r1 r2 st) = 0
        \<and> capturedImage (checkAttendance r1 r2 st) = None)
   \<and> (capturedImage st = None \<longrightarrow>
        checkAttendance r1 r2 st = toast ''Please capture an image first'' ''warning'' st)
   \<and> ((\<forall>e\<in>set events. validEvent e \<and> aloneEvent e) \<longrightarrow>
        0 \<le> recognitionAttempts (runScript events initialScript)
        \<and> recognitionAttempts (runScript events initialScript) < 3)
   \<and> (capturedImage st \<noteq> None \<and> recognitionAttempts st = 0
        \<and> \<not> a1 < successRate 1 \<and> \<not> a2 < successRate 2 \<and> \<not> a3 < successRate 3 \<longrightarrow>
        recognitionAttempts (checkAttendance a1 b1 st) = 1
        \<and> capturedImage (checkAttendance a1 b1 st) \<noteq> None
        \<and> recognitionAttempts (checkAttendance a2 b2 (checkAttendance a1 b1 st)) = 2
        \<and> capturedImage (checkAttendance a2 b2 (checkAttendance a1 b1 st)) \<noteq> None
        \<and> recognitionAttempts
            (checkAttendance a3 b3 (checkAttendance a2 b2 (checkAttendance a1 b1 st))) = 0
        \<and> capturedImage
            (checkAttendance a3 b3 (checkAttendance a2 b2 (checkAttendance a1 b1 st))) = None
        \<and> checkAttendance r1 r2
            (checkAttendance a3 b3 (checkAttendance a2 b2 (checkAttendance a1 b1 st)))
          = toast ''Please capture an image first'' ''warning''
              (checkAttendance a3 b3 (checkAttendance a2 b2 (checkAttendance a1 b1 st))))"
proof -
  have announce: "capturedImage st \<noteq> None \<longrightarrow>
      (\<exists>rest. shown (checkAttendance r1 r2 st) =
         shown st
           @ (''Processing face recognition... (Attempt '' @ show_int (recognitionAttempts st + 1)
                @ ''/3)'', ''info'') # rest)"
    using checkAttendance_announces [of st r1 r2] by (simp add: show_MAX_ATTEMPTS)
  have failed: "capturedImage st \<noteq> None \<and> \<not> r1 < successRate (recognitionAttempts st + 1) \<longrightarrow>
        (if recognitionAttempts st + 1 < 3
         then recognitionAttempts (checkAttendance r1 r2 st) = recognitionAttempts st + 1
              \<and> capturedImage (checkAttendance r1 r2 st) = capturedImage st
         else recognitionAttempts (checkAttendance r1 r2 st) = 0
              \<and> capturedImage (checkAttendance r1 r2 st) = None
              \<and> last (shown (checkAttendance r1 r2 st)) =
                    (''Maximum attempts (3) reached. Please try again later.'', ''error''))"
    using checkAttendance_failed_retry(1,2) [of st r1 r2]
          checkAttendance_failed_exhausted(1,2,4) [of st r1 r2]
    by (simp add: show_MAX_ATTEMPTS MAX_ATTEMPTS_def)
  have recognized: "capturedImage st \<noteq> None \<and> r1 < successRate (recognitionAttempts st + 1)
        \<and> 0 \<le> r2 \<and> r2 < 1 \<and> userDatabase st \<noteq> [] \<longrightarrow>
        recognitionAttempts (checkAttendance r1 r2 st) = 0
        \<and> capturedImage (checkAttendance r1 r2 st) = None"
    using checkAttendance_recognized(1,2) [of st r1 r2] by blast
  have refused: "capturedImage st = None \<longrightarrow>
        checkAttendance r1 r2 st = toast ''Please capture an image first'' ''warning'' st"
    by (simp add: checkAttendance_no_capture)
  have bounded: "(\<forall>e\<in>set events. validEvent e \<and> aloneEvent e) \<longrightarrow>
        0 \<le> recognitionAttempts (runScript events initialScript)
        \<and> recognitionAttempts (runScript events initialScript) < 3"
    using runScript_invariant [OF initialScript_invariant, of events]
    by (simp add: budgetInvariant_def MAX_ATTEMPTS_def)
  have three: "recognitionAttempts (checkAttendance a1 b1 st) = 1
        \<and> capturedImage (checkAttendance a1 b1 st) \<noteq> None
        \<and> recognitionAttempts (checkAttendance a2 b2 (checkAttendance a1 b1 st)) = 2
        \<and> capturedImage (checkAttendance a2 b2 (checkAttendance a1 b1 st)) \<noteq> None
        \<and> recognitionAttempts
            (checkAttendance a3 b3 (checkAttendance a2 b2 (checkAttendance a1 b1 st))) = 0
        \<and> capturedImage
            (checkAttendance a3 b3 (checkAttendance a2 b2 (checkAttendance a1 b1 st))) = None
        \<and> checkAttendance r1 r2
            (checkAttendance a3 b3 (checkAttendance a2 b2 (checkAttendance a1 b1 st)))
          = toast ''Please capture an image first'' ''warning''
              (checkAttendance a3 b3 (checkAttendance a2 b2 (checkAttendance a1 b1 st)))"
    if cap: "capturedImage st \<noteq> None" and zero: "recognitionAttempts st = 0"
      and f1: "\<not> a1 < successRate 1" and f2: "\<not> a2 < successRate 2" and f3: "\<not> a3 < successRate 3"
  proof -
    let ?st1 = "checkAttendance a1 b1 st"
    let ?st2 = "checkAttendance a2 b2 ?st1"
    let ?st3 = "checkAttendance a3 b3 ?st2"
    have s1: "recognitionAttempts ?st1 = 1" "capturedImage ?st1 \<noteq> None"
      using checkAttendance_failed_retry(1,2) [of st a1 b1] cap zero f1
      by (simp_all add: MAX_ATTEMPTS_def)
    have s2: "recognitionAttempts ?st2 = 2" "capturedImage ?st2 \<noteq> None"
      using checkAttendance_failed_retry(1,2) [of ?st1 a2 b2] s1 f2
      by (simp_all add: MAX_ATTEMPTS_def)
    have s3: "recognitionAttempts ?st3 = 0" "capturedImage ?st3 = None"
      using checkAttendance_failed_exhausted(1,2) [of ?st2 a3 b3] s2 f3
      by (simp_all add: MAX_ATTEMPTS_def)
    from s1 s2 s3 checkAttendance_no_capture [OF s3(2), of r1 r2] show ?thesis
      by simp
  qed
  from announce failed recognized refused bounded three show ?thesis
    by blast
qed


lemma captureImage_resets:
  "videoStream st \<Longrightarrow> recognitionAttempts (captureImage st) = 0"
  by (simp add: captureImage_def startCountdown_def)

subsection \<open>Calls that overlap\<close>


end
